theory Spec2Isabelle
  imports Main
begin

section \<open>Data model\<close>

text \<open>
  The two TypeScript classes verified here are \<^verbatim>\<open>CurrentIssue\<close> (the current-issue
  tracker) and \<^verbatim>\<open>IssueFeatureRegistrar\<close>.  Both are orchestration code over the
  editor host, the git extension and the remote API.  The collaborators are modelled in
  two records: \<open>env\<close> holds what the collaborators answer (configuration values and the
  results of the asynchronous calls), \<open>world\<close> holds what the code changes (the git
  repository, the persisted per-issue state, the commit-message boxes) together with the
  chronological list of the calls made to the collaborators.

  A call that the source wraps in \<^verbatim>\<open>try\<close>/\<^verbatim>\<open>catch\<close>, and every git checkout or
  branch creation, can fail in the model.  The other collaborator calls
  (\<^verbatim>\<open>getAuthenticatedUser\<close>, \<^verbatim>\<open>variableSubstitution\<close>, \<^verbatim>\<open>showInputBox\<close>,
  \<^verbatim>\<open>pushAndCreatePR\<close>, \<^verbatim>\<open>createIssue\<close>, \<^verbatim>\<open>applyEdit\<close>, \<^verbatim>\<open>openExternal\<close>) are
  taken to return.

  Not modelled: the registration of commands and providers in \<^verbatim>\<open>initialize\<close>,
  \<^verbatim>\<open>createIssueFromFile\<close> and the edit-description button, \<^verbatim>\<open>applyPatch\<close>, the
  permalink commands, and the dispatch of the status-bar menu on the choice made.
\<close>

record PullRequestDefaults =
  owner :: string
  repo :: string
  base :: string

record IssueModel =
  number :: nat
  title :: string
  html_url :: string

text \<open>
  \<^verbatim>\<open>IssueState\<close> is declared in \<^verbatim>\<open>stateManager\<close>.  The source only ever tests
  \<^verbatim>\<open>hasDraftPR\<close> with \<^verbatim>\<open>!\<close>, so an absent flag and \<^verbatim>\<open>false\<close> are one value.
\<close>

record IssueState =
  branch :: "string option"
  hasDraftPR :: bool

record StatusBarItem =
  sb_text :: string
  sb_tooltip :: string
  sb_command :: string

record CreateIssueParams =
  p_owner :: string
  p_repo :: string
  p_title :: string
  p_body :: "string option"
  p_assignee :: "string option"

datatype event =
    ShowErrorMessage string
  | ShowInputBox string string
  | GetBranch string
  | Checkout string
  | CreateBranch string
  | SetSavedIssueState nat IssueState
  | StatusBarShow string
  | StatusBarDispose
  | PushAndCreatePR bool
  | CreateIssue CreateIssueParams
  | ApplyEdit string nat nat string
  | OpenExternal string
  | RefreshCacheNeeded
  | ExecuteCommand string
  | ConfigUpdateGlobal
  | RevealRange nat
  | ShowQuickPick "string list"

datatype error = CheckoutFailed string | CreateBranchFailed string | CreateIssueFailed

record env =
  branchConfiguration :: "string option"
  branchNameConfiguration :: string
  workingIssueFormatScm :: "string option"
  alwaysCreateDraftPR :: bool
  createInsertFormat :: "string option"
  getPullRequestDefaults :: "PullRequestDefaults option"
  getAuthenticatedUser :: string
  variableSubstitution ::
    "string \<Rightarrow> IssueModel \<Rightarrow> PullRequestDefaults option \<Rightarrow> string option \<Rightarrow> string"
  getIssueNumberLabel :: "IssueModel \<Rightarrow> PullRequestDefaults option \<Rightarrow> string"
  showInputBox :: "string option"
  checkoutFails :: "string \<Rightarrow> bool"
  createBranchFails :: "string \<Rightarrow> bool"
  pushAndCreatePR :: bool

record world =
  branches :: "string list"
  HEAD :: "string option"
  inputBox :: "nat \<Rightarrow> string"
  savedIssueState :: "nat \<rightharpoonup> IssueState"
  events :: "event list"

text \<open>
  The fields of a \<^verbatim>\<open>CurrentIssue\<close>.  \<open>ci_repo\<close> is the repository that
  \<^verbatim>\<open>setRepo\<close> found for the remote of the issue in the constructor, as an index into
  the commit-message boxes of the world, or nothing; the search itself is not modelled.
\<close>

record CurrentIssue =
  issueModel :: IssueModel
  shouldPromptForBranch :: bool
  statusBarItem :: "StatusBarItem option"
  branchName :: "string option"
  user :: "string option"
  ci_repo :: "nat option"
  repoDefaults :: "PullRequestDefaults option"

section \<open>JavaScript values\<close>

text \<open>\<^verbatim>\<open>!s\<close> for a \<^verbatim>\<open>string | undefined\<close>: undefined and the empty string are falsy.\<close>

definition falsy :: "string option \<Rightarrow> bool" where
  "falsy s = (case s of None \<Rightarrow> True | Some v \<Rightarrow> v = [])"

text \<open>A \<^verbatim>\<open>string | undefined\<close> inside a template literal.\<close>

definition js_str :: "string option \<Rightarrow> string" where
  "js_str s = (case s of None \<Rightarrow> ''undefined'' | Some v \<Rightarrow> v)"

definition digit :: "nat \<Rightarrow> char" where
  "digit n = ''0123456789'' ! n"

text \<open>An issue number inside a template literal: its decimal digits.\<close>

function toString :: "nat \<Rightarrow> string" where
  "toString n = (if n < 10 then [digit n] else toString (n div 10) @ [digit (n mod 10)])"
  by pat_completeness auto
termination
  by (relation "measure id") auto

declare toString.simps [simp del]

definition emit :: "event \<Rightarrow> world \<Rightarrow> world" where
  "emit ev w = w\<lparr>events := events w @ [ev]\<rparr>"

section \<open>The persisted per-issue state\<close>

text \<open>
  Modelled from the spec: \<^verbatim>\<open>StateManager.getSavedIssueState\<close> and
  \<^verbatim>\<open>StateManager.setSavedIssueState\<close> are not among the source files.  The spec
  describes the persisted per-issue state as a mapping from issue number to the branch
  name and the draft-PR flag, keyed uniquely by issue number.  An issue with no entry
  has no branch name and no draft PR.
\<close>

definition getSavedIssueState :: "nat \<Rightarrow> world \<Rightarrow> IssueState" where
  "getSavedIssueState n w =
     (case savedIssueState w n of
        None \<Rightarrow> \<lparr>branch = None, hasDraftPR = False\<rparr>
      | Some st \<Rightarrow> st)"

definition setSavedIssueState :: "IssueModel \<Rightarrow> IssueState \<Rightarrow> world \<Rightarrow> world" where
  "setSavedIssueState im st w =
     emit (SetSavedIssueState (number im) st)
       (w\<lparr>savedIssueState := (savedIssueState w)(number im \<mapsto> st)\<rparr>)"

section \<open>The git repository\<close>

text \<open>
  \<^verbatim>\<open>repository.checkout\<close> and \<^verbatim>\<open>repository.createBranch(name, true)\<close>
  either reject, leaving the repository as it was, or move \<open>HEAD\<close>.
\<close>

definition checkout :: "env \<Rightarrow> string \<Rightarrow> world \<Rightarrow> (error + unit) \<times> world" where
  "checkout e b w =
     (let w1 = emit (Checkout b) w in
      if checkoutFails e b then (Inl (CheckoutFailed b), w1)
      else (Inr (), w1\<lparr>HEAD := Some b\<rparr>))"

definition createBranch :: "env \<Rightarrow> string \<Rightarrow> world \<Rightarrow> (error + unit) \<times> world" where
  "createBranch e b w =
     (let w1 = emit (CreateBranch b) w in
      if createBranchFails e b then (Inl (CreateBranchFailed b), w1)
      else (Inr (), w1\<lparr>branches := b # branches w1, HEAD := Some b\<rparr>))"

section \<open>CurrentIssue\<close>

text \<open>\<^verbatim>\<open>getBasicBranchName\<close>: \<^verbatim>\<open>`${user}/issue${this.issueModel.number}`\<close>.\<close>

definition getBasicBranchName :: "CurrentIssue \<Rightarrow> string \<Rightarrow> string" where
  "getBasicBranchName t u = u @ ''/issue'' @ toString (number (issueModel t))"

text \<open>
  \<^verbatim>\<open>branchExists\<close>: \<^verbatim>\<open>getBranch\<close> rejects or answers nothing for a branch the
  repository does not have; both give \<^verbatim>\<open>false\<close>.
\<close>

definition branchExists :: "string \<Rightarrow> world \<Rightarrow> bool \<times> world" where
  "branchExists b w = (b \<in> set (branches w), emit (GetBranch b) w)"

definition createOrCheckoutBranch :: "env \<Rightarrow> string \<Rightarrow> world \<Rightarrow> (error + unit) \<times> world" where
  "createOrCheckoutBranch e b w =
     (case branchExists b w of
        (ex, w1) \<Rightarrow> if ex then checkout e b w1 else createBranch e b w1)"

text \<open>\<^verbatim>\<open>getUser\<close> caches the authenticated user; a falsy cached value is fetched again.\<close>

definition getUser :: "env \<Rightarrow> CurrentIssue \<Rightarrow> string \<times> CurrentIssue" where
  "getUser e t =
     (if falsy (user t) then (getAuthenticatedUser e, t\<lparr>user := Some (getAuthenticatedUser e)\<rparr>)
      else (js_str (user t), t))"

text \<open>
  \<^verbatim>\<open>createIssueBranch\<close>, first half: the effective configuration and the branch name
  (the lines up to and including the \<^verbatim>\<open>getBasicBranchName\<close> fallback).
\<close>

definition createBranchConfig :: "env \<Rightarrow> CurrentIssue \<Rightarrow> string option" where
  "createBranchConfig e t =
     (if shouldPromptForBranch t then Some ''prompt'' else branchConfiguration e)"

definition resolveBranchName :: "env \<Rightarrow> CurrentIssue \<Rightarrow> world \<Rightarrow> CurrentIssue \<times> world" where
  "resolveBranchName e t w =
     (let state = getSavedIssueState (number (issueModel t)) w;
          t1 = t\<lparr>branchName := (if shouldPromptForBranch t then None else branch state)\<rparr>;
          (t2, w2) =
            (if falsy (branchName t1) then
               (if createBranchConfig e t = Some ''on'' then
                  (case getUser e t1 of
                     (u, t') \<Rightarrow>
                       (t'\<lparr>branchName :=
                            Some (variableSubstitution e (branchNameConfiguration e)
                                    (issueModel t') None (Some u))\<rparr>, w))
                else
                  (t1\<lparr>branchName := showInputBox e\<rparr>,
                   emit (ShowInputBox (''issue'' @ toString (number (issueModel t1)))
                           ''Enter the label for the new branch.'') w))
             else (t1, w))
      in
        if falsy (branchName t2) then
          (case getUser e t2 of
             (u, t') \<Rightarrow> (t'\<lparr>branchName := Some (getBasicBranchName t' u)\<rparr>, w2))
        else (t2, w2))"

text \<open>
  \<^verbatim>\<open>createIssueBranch\<close>, second half: the name is saved, then checked out or created;
  the \<^verbatim>\<open>catch\<close> block either gives up (the name already is the basic name) or saves
  the basic name and tries it, outside any \<^verbatim>\<open>try\<close>.
\<close>

definition saveBranch :: "CurrentIssue \<Rightarrow> world \<Rightarrow> world" where
  "saveBranch t w =
     setSavedIssueState (issueModel t)
       ((getSavedIssueState (number (issueModel t)) w)\<lparr>branch := branchName t\<rparr>) w"

definition checkoutIssueBranch ::
  "env \<Rightarrow> CurrentIssue \<Rightarrow> world \<Rightarrow> (error + unit) \<times> CurrentIssue \<times> world" where
  "checkoutIssueBranch e t w =
     (case createOrCheckoutBranch e (js_str (branchName t)) w of
        (Inr u, w1) \<Rightarrow> (Inr (), t, w1)
      | (Inl err, w1) \<Rightarrow>
          (case getUser e t of
             (u, t1) \<Rightarrow>
               (let basicBranchName = getBasicBranchName t1 u in
                if branchName t1 = Some basicBranchName then
                  (Inr (),
                   t1\<lparr>branchName := None\<rparr>,
                   emit (ShowErrorMessage (''Unable to checkout branch '' @ basicBranchName
                     @ ''. There may be file conflicts that prevent this branch change.'')) w1)
                else
                  (let w2 = emit (ShowErrorMessage (''Unable to create branch with name ''
                              @ js_str (branchName t1) @ ''. Using '' @ basicBranchName
                              @ '' instead.'')) w1;
                       t2 = t1\<lparr>branchName := Some basicBranchName\<rparr>;
                       w3 = saveBranch t2 w2
                   in case createOrCheckoutBranch e basicBranchName w3 of
                        (r, w4) \<Rightarrow> (r, t2, w4)))))"

definition createIssueBranch ::
  "env \<Rightarrow> CurrentIssue \<Rightarrow> world \<Rightarrow> (error + unit) \<times> CurrentIssue \<times> world" where
  "createIssueBranch e t w =
     (if createBranchConfig e t = Some ''off'' then (Inr (), t, w)
      else
        (case resolveBranchName e t w of
           (t1, w1) \<Rightarrow> checkoutIssueBranch e t1 (saveBranch t1 w1)))"

definition setCommitMessageAndGitEvent :: "env \<Rightarrow> CurrentIssue \<Rightarrow> world \<Rightarrow> world" where
  "setCommitMessageAndGitEvent e t w =
     (case (ci_repo t, workingIssueFormatScm e) of
        (Some r, Some configuration) \<Rightarrow>
          w\<lparr>inputBox := (inputBox w)
               (r := variableSubstitution e configuration (issueModel t) (repoDefaults t) None)\<rparr>
      | _ \<Rightarrow> w)"

definition setStatusBar :: "env \<Rightarrow> CurrentIssue \<Rightarrow> world \<Rightarrow> CurrentIssue \<times> world" where
  "setStatusBar e t w =
     (let item = \<lparr>sb_text = ''$(issues) Issue ''
                      @ getIssueNumberLabel e (issueModel t) (repoDefaults t),
                  sb_tooltip = title (issueModel t),
                  sb_command = ''issue.statusBar''\<rparr>
      in (t\<lparr>statusBarItem := Some item\<rparr>, emit (StatusBarShow (sb_text item)) w))"

definition createDraftPR :: "env \<Rightarrow> CurrentIssue \<Rightarrow> world \<Rightarrow> world" where
  "createDraftPR e t w =
     (if alwaysCreateDraftPR e \<and> \<not> falsy (branchName t) then
        (let issueState = getSavedIssueState (number (issueModel t)) w in
         if \<not> hasDraftPR issueState then
           (let w1 = emit (PushAndCreatePR True) w in
            if pushAndCreatePR e
            then setSavedIssueState (issueModel t) (issueState\<lparr>hasDraftPR := True\<rparr>) w1
            else w1)
         else w)
      else w)"

text \<open>
  The \<^verbatim>\<open>try\<close>/\<^verbatim>\<open>catch\<close> that opens \<^verbatim>\<open>startWorking\<close>: a rejected
  \<^verbatim>\<open>getPullRequestDefaults\<close> shows a message and leaves \<^verbatim>\<open>repoDefaults\<close> as it was.
\<close>

definition fetchDefaults :: "env \<Rightarrow> CurrentIssue \<Rightarrow> world \<Rightarrow> CurrentIssue \<times> world" where
  "fetchDefaults e t w =
     (case getPullRequestDefaults e of
        Some d \<Rightarrow> (t\<lparr>repoDefaults := Some d\<rparr>, w)
      | None \<Rightarrow>
          (t, emit (ShowErrorMessage
                 ''There is no remote. Can't start working on an issue.'') w))"

definition startWorking ::
  "env \<Rightarrow> CurrentIssue \<Rightarrow> world \<Rightarrow> (error + unit) \<times> CurrentIssue \<times> world" where
  "startWorking e t w =
     (case fetchDefaults e t w of
        (t1, w1) \<Rightarrow>
          (case createIssueBranch e t1 w1 of
             (Inl err, t2, w2) \<Rightarrow> (Inl err, t2, w2)
           | (Inr u, t2, w2) \<Rightarrow>
               (case setStatusBar e t2 (setCommitMessageAndGitEvent e t2 w2) of
                  (t3, w3) \<Rightarrow> (Inr (), t3, createDraftPR e t3 w3))))"



section \<open>IssueFeatureRegistrar\<close>

record Range =
  start_line :: nat
  start_character :: nat
  end_line :: nat
  end_character :: nat

text \<open>
  A \<^verbatim>\<open>vscode.TextDocument\<close>: \<open>getText\<close> is \<^verbatim>\<open>document.getText(range)\<close> and
  \<open>lineRange\<close> is \<^verbatim>\<open>document.lineAt(line).range\<close>.
\<close>

record TextDocument =
  uri :: string
  isUntitled :: bool
  getText :: "Range \<Rightarrow> string"
  lineRange :: "nat \<Rightarrow> Range"

record NewIssue =
  ni_document :: TextDocument
  ni_lineNumber :: nat
  ni_line :: string
  ni_insertIndex :: nat
  ni_range :: Range

record TextEditor =
  ed_document :: TextDocument
  selection :: Range

text \<open>
  A query object \<^verbatim>\<open>{ label, query }\<close> as its properties in insertion order, so that
  two values have the same \<^verbatim>\<open>JSON.stringify\<close> text exactly when they are equal.
\<close>

type_synonym queries = "(string \<times> string) list list"

record Inspect =
  defaultValue :: "queries option"
  globalValue :: "queries option"
  workspaceValue :: "queries option"

record host =
  userMap :: "string \<rightharpoonup> unit"
  activeTextEditor :: "TextEditor option"
  createGithubPermalink :: "NewIssue option \<Rightarrow> string option"
  createIssue :: "CreateIssueParams \<Rightarrow> error + IssueModel option"
  inspectQueries :: "Inspect option"
  getQueries :: "queries option"
  editorText :: "string \<Rightarrow> string option"
  search :: "string \<Rightarrow> string \<Rightarrow> int"

datatype arg = Issue IssueModel | Other

subsection \<open>Strings and the user-mention expression\<close>

definition whitespace :: "char \<Rightarrow> bool" where
  "whitespace c =
     (c \<in> set [CHR 0x09, CHR 0x0A, CHR 0x0B, CHR 0x0C, CHR 0x0D, CHR 0x20, CHR 0xA0])"

definition trim :: "string \<Rightarrow> string" where
  "trim s = rev (dropWhile whitespace (rev (dropWhile whitespace s)))"

definition isEmpty :: "Range \<Rightarrow> bool" where
  "isEmpty r = (start_line r = end_line r \<and> start_character r = end_character r)"

text \<open>
  Modelled from the spec: the constant \<^verbatim>\<open>USER_EXPRESSION\<close> is declared in
  \<^verbatim>\<open>util\<close>, which is not among the source files.  The spec calls what it finds an
  \<^verbatim>\<open>@user\<close> mention.  \<^verbatim>\<open>createTodoIssue\<close> looks element 1 of the result of
  \<^verbatim>\<open>String.prototype.match\<close> up in the user map and asks for a result of length 2, which
  is the shape of a match of an expression without the global flag and with one capture
  group: the matched text, then the group.  So the expression is taken to be an \<^verbatim>\<open>@\<close>
  followed by a group of one or more characters that are not whitespace, and
  \<open>match_USER_EXPRESSION\<close> is \<^verbatim>\<open>text.match(USER_EXPRESSION)\<close>: the leftmost match, or
  \<^verbatim>\<open>null\<close>.
\<close>

fun match_USER_EXPRESSION :: "string \<Rightarrow> string list option" where
  "match_USER_EXPRESSION [] = None"
| "match_USER_EXPRESSION (c # cs) =
     (if c = CHR ''@'' \<and> takeWhile (\<lambda>x. \<not> whitespace x) cs \<noteq> []
      then Some [c # takeWhile (\<lambda>x. \<not> whitespace x) cs, takeWhile (\<lambda>x. \<not> whitespace x) cs]
      else match_USER_EXPRESSION cs)"

subsection \<open>createTodoIssue\<close>

text \<open>
  What \<^verbatim>\<open>createTodoIssue\<close> computes before it shows the title input box; the
  handlers of the input box close over these values.  \<open>None\<close> is the early
  \<^verbatim>\<open>return undefined\<close>.
\<close>

record TodoIssue =
  document :: TextDocument
  newIssue :: "NewIssue option"
  titlePlaceholder :: "string option"
  insertIndex :: "nat option"
  lineNumber :: "nat option"
  assignee :: "string option"
  body :: "string option"

definition issueBodyOrPermalink :: "host \<Rightarrow> NewIssue option \<Rightarrow> string option \<Rightarrow> string option" where
  "issueBodyOrPermalink h ni issueBody =
     (if \<not> falsy issueBody \<or> (case ni of None \<Rightarrow> False | Some n \<Rightarrow> isUntitled (ni_document n))
      then issueBody else createGithubPermalink h ni)"

definition findAssignee :: "host \<Rightarrow> string \<Rightarrow> string option" where
  "findAssignee h issueGenerationText =
     (case match_USER_EXPRESSION issueGenerationText of
        None \<Rightarrow> None
      | Some matches \<Rightarrow>
          if length matches = 2 \<and> userMap h (matches ! 1) \<noteq> None
          then Some (matches ! 1) else None)"

definition createTodoIssue :: "host \<Rightarrow> NewIssue option \<Rightarrow> string option \<Rightarrow> TodoIssue option" where
  "createTodoIssue h ni issueBody =
     (case ni of
        None \<Rightarrow>
          (case activeTextEditor h of
             None \<Rightarrow> None
           | Some ed \<Rightarrow>
               Some \<lparr>document = ed_document ed, newIssue = None, titlePlaceholder = None,
                     insertIndex = None, lineNumber = None,
                     assignee = findAssignee h (getText (ed_document ed) (selection ed)),
                     body = issueBodyOrPermalink h None issueBody\<rparr>)
      | Some n \<Rightarrow>
          Some \<lparr>document = ni_document n, newIssue = Some n,
                titlePlaceholder = Some (trim (drop (ni_insertIndex n) (ni_line n))),
                insertIndex = Some (ni_insertIndex n), lineNumber = Some (ni_lineNumber n),
                assignee = findAssignee h
                  (getText (ni_document n)
                     (if isEmpty (ni_range n)
                      then lineRange (ni_document n) (start_line (ni_range n))
                      else ni_range n)),
                body = issueBodyOrPermalink h (Some n) issueBody\<rparr>)"

subsection \<open>doCreateIssue and createIssue\<close>

text \<open>\<^verbatim>\<open>get('createInsertFormat', 'number')\<close>: an unset value reads as \<^verbatim>\<open>'number'\<close>.\<close>

definition insertText :: "env \<Rightarrow> IssueModel \<Rightarrow> string" where
  "insertText e issue =
     (if (case createInsertFormat e of None \<Rightarrow> ''number'' | Some v \<Rightarrow> v) = ''number''
      then ''#'' @ toString (number issue) else html_url issue)"

definition doCreateIssue ::
  "env \<Rightarrow> host \<Rightarrow> TextDocument \<Rightarrow> NewIssue option \<Rightarrow> string \<Rightarrow> string option \<Rightarrow> string option
     \<Rightarrow> nat option \<Rightarrow> nat option \<Rightarrow> world \<Rightarrow> (error + unit) \<times> world" where
  "doCreateIssue e h doc ni ttl issueBody asg lineNo insertIdx w =
     (case getPullRequestDefaults e of
        None \<Rightarrow> (Inr (), emit (ShowErrorMessage ''There is no remote. Can't create an issue.'') w)
      | Some origin \<Rightarrow>
          (let params = \<lparr>p_owner = owner origin, p_repo = repo origin, p_title = ttl,
                         p_body = issueBodyOrPermalink h ni issueBody, p_assignee = asg\<rparr>;
               w1 = emit (CreateIssue params) w
           in case createIssue h params of
                Inl err \<Rightarrow> (Inl err, w1)
              | Inr None \<Rightarrow> (Inr (), w1)
              | Inr (Some issue) \<Rightarrow>
                  (case (insertIdx, lineNo) of
                     (Some i, Some l) \<Rightarrow>
                       (Inr (), emit RefreshCacheNeeded
                          (emit (ApplyEdit (uri doc) l i ('' '' @ insertText e issue)) w1))
                   | _ \<Rightarrow>
                       (Inr (), emit RefreshCacheNeeded
                          (emit (OpenExternal (html_url issue)) w1)))))"

text \<open>The \<^verbatim>\<open>onDidAccept\<close> handler of the title input box, given the value typed.\<close>

definition onDidAccept ::
  "env \<Rightarrow> host \<Rightarrow> TodoIssue \<Rightarrow> string \<Rightarrow> world \<Rightarrow> (error + unit) \<times> world" where
  "onDidAccept e h ti v w =
     (if v \<noteq> [] then
        doCreateIssue e h (document ti) (newIssue ti) v (body ti) (assignee ti)
          (lineNumber ti) (insertIndex ti) w
      else (Inr (), w))"

definition createIssue_registrar :: "env \<Rightarrow> world \<Rightarrow> (error + unit) \<times> world" where
  "createIssue_registrar e w =
     (case getPullRequestDefaults e of
        Some defaults \<Rightarrow>
          (Inr (), emit (OpenExternal (''https://github.com/'' @ owner defaults @ ''/''
                           @ repo defaults @ ''/issues/new/choose'')) w)
      | None \<Rightarrow>
          (Inr (), emit (ShowErrorMessage ''Unable to determine where to create the issue.'') w))"

subsection \<open>editQuery\<close>

definition editQueryCommand :: "host \<Rightarrow> string" where
  "editQueryCommand h =
     (if (case inspectQueries h of None \<Rightarrow> False | Some i \<Rightarrow> workspaceValue i \<noteq> None)
      then ''workbench.action.openWorkspaceSettingsFile''
      else ''workbench.action.openSettingsJson'')"

text \<open>
  \<open>editorText h command\<close> is the text of the active editor once the command has run
  (\<open>None\<close>: no active editor), \<open>search h\<close> is \<^verbatim>\<open>String.prototype.search\<close>.
\<close>

definition editQuery :: "host \<Rightarrow> string \<Rightarrow> world \<Rightarrow> world" where
  "editQuery h label w =
     (let hasWorkspace =
            (case inspectQueries h of None \<Rightarrow> False | Some i \<Rightarrow> workspaceValue i \<noteq> None);
          w1 = (if hasWorkspace then w
                else (case inspectQueries h of
                        None \<Rightarrow> w
                      | Some i \<Rightarrow>
                          if defaultValue i \<noteq> None \<and> defaultValue i = getQueries h
                          then emit ConfigUpdateGlobal w else w));
          w2 = emit (ExecuteCommand (editQueryCommand h)) w1
      in case editorText h (editQueryCommand h) of
           None \<Rightarrow> w2
         | Some txt \<Rightarrow>
             if 0 \<le> search h txt label then emit (RevealRange (nat (search h txt label))) w2
             else w2)"

subsection \<open>The current issue: stopWorking and the status-bar menu\<close>



text \<open>
  \<^verbatim>\<open>IssueFeatureRegistrar.statusBar\<close> up to the quick pick: the choices offered.
  The dispatch on the answer is not modelled.
\<close>

definition openIssueText :: "CurrentIssue \<Rightarrow> string" where
  "openIssueText t =
     ''$(globe) Open #'' @ toString (number (issueModel t)) @ '' '' @ title (issueModel t)"

definition pullRequestText :: "CurrentIssue \<Rightarrow> string" where
  "pullRequestText t =
     ''$(git-pull-request) Create pull request for #'' @ toString (number (issueModel t))
       @ '' (pushes branch)''"

definition draftPullRequestText :: "CurrentIssue \<Rightarrow> string" where
  "draftPullRequestText t =
     ''$(comment-discussion) Create draft pull request for #''
       @ toString (number (issueModel t)) @ '' (pushes branch)''"

definition applyPatch :: "env \<Rightarrow> CurrentIssue \<Rightarrow> string" where
  "applyPatch e t =
     ''$(beaker) Apply and patch of commits from '' @ js_str (branchName t) @ '' to ''
       @ js_str (map_option base (getPullRequestDefaults e))"

definition stopWorkingText :: "CurrentIssue \<Rightarrow> string" where
  "stopWorkingText t = ''$(circle-slash) Stop working on #'' @ toString (number (issueModel t))"

definition choices :: "env \<Rightarrow> CurrentIssue \<Rightarrow> string list" where
  "choices e t =
     (if \<not> falsy (branchName t) \<and> getPullRequestDefaults e \<noteq> None
      then [openIssueText t, pullRequestText t, draftPullRequestText t, applyPatch e t,
            stopWorkingText t]
      else [openIssueText t, pullRequestText t, draftPullRequestText t, stopWorkingText t])"

definition statusBar :: "env \<Rightarrow> CurrentIssue option \<Rightarrow> world \<Rightarrow> world" where
  "statusBar e cur w =
     (case cur of None \<Rightarrow> w | Some t \<Rightarrow> emit (ShowQuickPick (choices e t)) w)"

section \<open>Reading the call log\<close>

text \<open>The editor commands executed, in order.\<close>

fun executedCommands :: "event list \<Rightarrow> string list" where
  "executedCommands [] = []"
| "executedCommands (ExecuteCommand c # evs) = c # executedCommands evs"
| "executedCommands (ev # evs) = executedCommands evs"

text \<open>The draft pull requests pushed.\<close>

fun draftPushes :: "event list \<Rightarrow> nat" where
  "draftPushes [] = 0"
| "draftPushes (PushAndCreatePR True # evs) = Suc (draftPushes evs)"
| "draftPushes (ev # evs) = draftPushes evs"

text \<open>The branch names handed to \<^verbatim>\<open>checkout\<close> or \<^verbatim>\<open>createBranch\<close>, in order.\<close>

fun attempts :: "event list \<Rightarrow> string list" where
  "attempts [] = []"
| "attempts (Checkout b # evs) = b # attempts evs"
| "attempts (CreateBranch b # evs) = b # attempts evs"
| "attempts (ev # evs) = attempts evs"

text \<open>
  Whether \<^verbatim>\<open>createOrCheckoutBranch\<close> rejects for a branch name: the checkout of an
  existing branch fails, or the creation of a new one does.
\<close>

definition attemptFails :: "env \<Rightarrow> string \<Rightarrow> world \<Rightarrow> bool" where
  "attemptFails e b w = (if b \<in> set (branches w) then checkoutFails e b else createBranchFails e b)"

text \<open>
  \<^verbatim>\<open>startWorking\<close> called again and again, each time on a tracker of its own and
  with the collaborators answering as they then do; the persisted state and the
  repository carry over.
\<close>

fun startWorking_repeat :: "(env \<times> CurrentIssue) list \<Rightarrow> world \<Rightarrow> world" where
  "startWorking_repeat [] w = w"
| "startWorking_repeat ((e, t) # calls) w =
     startWorking_repeat calls (snd (snd (startWorking e t w)))"

text \<open>
  The \<^verbatim>\<open>@user\<close> mentions of a text as the spec counts them: every match of the user
  expression from left to right, each search starting where the previous match ended.
\<close>

function mentions :: "string \<Rightarrow> string list" where
  "mentions [] = []"
| "mentions (c # cs) =
     (if c = CHR ''@'' \<and> takeWhile (\<lambda>x. \<not> whitespace x) cs \<noteq> []
      then takeWhile (\<lambda>x. \<not> whitespace x) cs # mentions (dropWhile (\<lambda>x. \<not> whitespace x) cs)
      else mentions cs)"
  by pat_completeness auto
termination
  by (relation "measure length") (auto simp: length_dropWhile_le less_Suc_eq_le)

section \<open>Example values\<close>

text \<open>
  Issue 7 of the repository \<^verbatim>\<open>o/r\<close>, a user \<^verbatim>\<open>alice\<close>, a workspace with no
  remote where every checkout and branch creation fails, an empty repository, and a
  document whose line 3 holds a to-do comment.
\<close>

definition issue7 :: IssueModel where
  "issue7 = \<lparr>number = 7, title = ''Fix parsing'', html_url = ''https://github.com/o/r/issues/7''\<rparr>"

definition env_prompt :: env where
  "env_prompt =
     \<lparr>branchConfiguration = Some ''prompt'', branchNameConfiguration = ''issue-branch'',
      workingIssueFormatScm = Some ''msg'', alwaysCreateDraftPR = True,
      createInsertFormat = None, getPullRequestDefaults = None,
      getAuthenticatedUser = ''alice'',
      variableSubstitution = (\<lambda>template im d u. template),
      getIssueNumberLabel = (\<lambda>im d. ''#7''),
      showInputBox = None, checkoutFails = (\<lambda>b. True), createBranchFails = (\<lambda>b. True),
      pushAndCreatePR = True\<rparr>"

definition defaults0 :: PullRequestDefaults where
  "defaults0 = \<lparr>owner = ''o'', repo = ''r'', base = ''main''\<rparr>"

definition world0 :: world where
  "world0 = \<lparr>branches = [], HEAD = None, inputBox = (\<lambda>r. []), savedIssueState = Map.empty,
             events = []\<rparr>"

definition tracker7 :: CurrentIssue where
  "tracker7 = \<lparr>issueModel = issue7, shouldPromptForBranch = False, statusBarItem = None,
               branchName = None, user = None, ci_repo = Some 0, repoDefaults = None\<rparr>"

definition doc0 :: TextDocument where
  "doc0 = \<lparr>uri = ''file:///src/a.ts'', isUntitled = False,
           getText = (\<lambda>r. ''// TODO fix parsing @alice''),
           lineRange = (\<lambda>l. \<lparr>start_line = l, start_character = 0, end_line = l,
                                end_character = 26\<rparr>)\<rparr>"

definition newIssue0 :: NewIssue where
  "newIssue0 = \<lparr>ni_document = doc0, ni_lineNumber = 3, ni_line = ''// TODO fix parsing @alice'',
                ni_insertIndex = 8,
                ni_range = \<lparr>start_line = 3, start_character = 0, end_line = 3,
                             end_character = 0\<rparr>\<rparr>"

definition host0 :: host where
  "host0 = \<lparr>userMap = [''alice'' \<mapsto> ()], activeTextEditor = None,
            createGithubPermalink = (\<lambda>ni. Some ''https://github.com/o/r/blob/abc/a.ts#L4''),
            createIssue = (\<lambda>p. Inr (Some issue7)),
            inspectQueries = Some \<lparr>defaultValue = Some [], globalValue = None,
                                    workspaceValue = Some []\<rparr>,
            getQueries = Some [], editorText = (\<lambda>c. None), search = (\<lambda>t l. - 1)\<rparr>"

definition doc_two :: TextDocument where
  "doc_two = doc0\<lparr>getText := (\<lambda>r. ''// TODO ask @alice and @bob'')\<rparr>"

definition newIssue_two :: NewIssue where
  "newIssue_two = newIssue0\<lparr>ni_document := doc_two, ni_line := ''// TODO ask @alice and @bob''\<rparr>"

text \<open>The prompt is answered \<^verbatim>\<open>feature\<close>, and only that branch cannot be created.\<close>

definition env_retry :: env where
  "env_retry = env_prompt\<lparr>showInputBox := Some ''feature'',
                           createBranchFails := (\<lambda>b. b = ''feature'')\<rparr>"

text \<open>
  A workspace with a remote where nothing fails and the prompt is answered
  \<^verbatim>\<open>feature\<close>, and the world after a first \<^verbatim>\<open>startWorking\<close> on issue 7 there.
\<close>

definition env_ok :: env where
  "env_ok = env_prompt\<lparr>showInputBox := Some ''feature'', checkoutFails := (\<lambda>b. False),
                        createBranchFails := (\<lambda>b. False),
                        getPullRequestDefaults := Some defaults0\<rparr>"

definition world1 :: world where
  "world1 = snd (snd (startWorking env_ok tracker7 world0))"

text \<open>The same workspace with branch creation configured \<^verbatim>\<open>'off'\<close>.\<close>

definition env_off :: env where
  "env_off = env_ok\<lparr>branchConfiguration := Some ''off''\<rparr>"

section \<open>Issue creation\<close>

text \<open>
  Claim C7.  When the pull-request defaults cannot be determined, \<^verbatim>\<open>doCreateIssue\<close>
  and \<^verbatim>\<open>createIssue\<close> return normally; the only call either makes is the one that
  shows its error message, so no issue is created and no edit is applied.
\<close>

theorem doCreateIssue_no_remote:
  "getPullRequestDefaults e = None \<Longrightarrow>
     doCreateIssue e h doc ni ttl issueBody asg lineNo insertIdx w
       = (Inr (), w\<lparr>events := events w
            @ [ShowErrorMessage ''There is no remote. Can't create an issue.'']\<rparr>)
     \<and> createIssue_registrar e w
       = (Inr (), w\<lparr>events := events w
            @ [ShowErrorMessage ''Unable to determine where to create the issue.'']\<rparr>)"
  by (simp add: doCreateIssue_def createIssue_registrar_def emit_def)

theorem doCreateIssue_no_remote_witness:
  "getPullRequestDefaults env_prompt = None
   \<and> doCreateIssue env_prompt host0 doc0 (Some newIssue0) ''Fix parsing'' None (Some ''alice'')
        (Some 3) (Some 8) world0
       = (Inr (), world0\<lparr>events :=
            [ShowErrorMessage ''There is no remote. Can't create an issue.'']\<rparr>)
   \<and> createIssue_registrar env_prompt world0
       = (Inr (), world0\<lparr>events :=
            [ShowErrorMessage ''Unable to determine where to create the issue.'']\<rparr>)"
  using doCreateIssue_no_remote [of env_prompt host0 doc0 "Some newIssue0" "''Fix parsing''" None
      "Some ''alice''" "Some 3" "Some 8" world0]
  by (simp add: env_prompt_def world0_def)

text \<open>
  Claim C8.  Once the remote issue is created, \<^verbatim>\<open>doCreateIssue\<close> inserts a space and
  the reference at the given line and index of the document when both are given,
  \<^verbatim>\<open>#\<close> and the number when \<^verbatim>\<open>createInsertFormat\<close> is unset or \<^verbatim>\<open>'number'\<close>
  and the URL otherwise; when one of them is missing it opens the URL of the issue.
  The line and index that \<^verbatim>\<open>createTodoIssue\<close> hands over are those of the line the
  command was invoked from, and there are none when it was invoked on a selection.
\<close>

theorem doCreateIssue_reference_or_open:
  assumes "getPullRequestDefaults e = Some origin"
    and "createIssue h \<lparr>p_owner = owner origin, p_repo = repo origin, p_title = ttl,
                         p_body = issueBodyOrPermalink h ni issueBody, p_assignee = asg\<rparr>
           = Inr (Some issue)"
  shows "doCreateIssue e h doc ni ttl issueBody asg lineNo insertIdx w =
     (Inr (),
      w\<lparr>events := events w @
         [CreateIssue \<lparr>p_owner = owner origin, p_repo = repo origin, p_title = ttl,
                        p_body = issueBodyOrPermalink h ni issueBody, p_assignee = asg\<rparr>,
          (case (insertIdx, lineNo) of
             (Some i, Some l) \<Rightarrow>
               ApplyEdit (uri doc) l i
                 ('' '' @ (if createInsertFormat e = None \<or> createInsertFormat e = Some ''number''
                           then ''#'' @ toString (number issue) else html_url issue))
           | _ \<Rightarrow> OpenExternal (html_url issue)),
          RefreshCacheNeeded]\<rparr>)
     \<and> (case createTodoIssue h ni issueBody of
          None \<Rightarrow> ni = None
        | Some ti \<Rightarrow>
            lineNumber ti = map_option ni_lineNumber ni
            \<and> insertIndex ti = map_option ni_insertIndex ni
            \<and> onDidAccept e h ti (c # cs) w
                = doCreateIssue e h (document ti) ni (c # cs) (body ti) (assignee ti)
                    (map_option ni_lineNumber ni) (map_option ni_insertIndex ni) w)"
proof (intro conjI)
  show "doCreateIssue e h doc ni ttl issueBody asg lineNo insertIdx w =
     (Inr (),
      w\<lparr>events := events w @
         [CreateIssue \<lparr>p_owner = owner origin, p_repo = repo origin, p_title = ttl,
                        p_body = issueBodyOrPermalink h ni issueBody, p_assignee = asg\<rparr>,
          (case (insertIdx, lineNo) of
             (Some i, Some l) \<Rightarrow>
               ApplyEdit (uri doc) l i
                 ('' '' @ (if createInsertFormat e = None \<or> createInsertFormat e = Some ''number''
                           then ''#'' @ toString (number issue) else html_url issue))
           | _ \<Rightarrow> OpenExternal (html_url issue)),
          RefreshCacheNeeded]\<rparr>)"
    using assms
    by (auto simp: doCreateIssue_def emit_def insertText_def split: option.splits)
  show "case createTodoIssue h ni issueBody of
          None \<Rightarrow> ni = None
        | Some ti \<Rightarrow>
            lineNumber ti = map_option ni_lineNumber ni
            \<and> insertIndex ti = map_option ni_insertIndex ni
            \<and> onDidAccept e h ti (c # cs) w
                = doCreateIssue e h (document ti) ni (c # cs) (body ti) (assignee ti)
                    (map_option ni_lineNumber ni) (map_option ni_insertIndex ni) w"
    by (simp add: createTodoIssue_def onDidAccept_def split: option.splits)
qed

theorem doCreateIssue_reference_or_open_witness:
  "doCreateIssue (env_prompt\<lparr>getPullRequestDefaults := Some defaults0\<rparr>) host0 doc0
      (Some newIssue0) ''Fix parsing'' None (Some ''alice'') (Some 3) (Some 8) world0 =
     (Inr (),
      world0\<lparr>events :=
         [CreateIssue \<lparr>p_owner = ''o'', p_repo = ''r'', p_title = ''Fix parsing'',
                        p_body = Some ''https://github.com/o/r/blob/abc/a.ts#L4'',
                        p_assignee = Some ''alice''\<rparr>,
          ApplyEdit ''file:///src/a.ts'' 3 8 '' #7'',
          RefreshCacheNeeded]\<rparr>)"
  using doCreateIssue_reference_or_open [of "env_prompt\<lparr>getPullRequestDefaults := Some defaults0\<rparr>"
      defaults0 host0 "''Fix parsing''" "Some newIssue0" None "Some ''alice''" issue7 doc0
      "Some 3" "Some 8" world0]
  by (simp add: env_prompt_def host0_def defaults0_def issue7_def world0_def doc0_def
      newIssue0_def issueBodyOrPermalink_def falsy_def toString.simps digit_def)

section \<open>editQuery\<close>

lemma executedCommands_append:
  "executedCommands (xs @ ys) = executedCommands xs @ executedCommands ys"
  by (induction xs rule: executedCommands.induct) simp_all

text \<open>
  Claim C9.  \<^verbatim>\<open>editQuery\<close> executes one command: it opens the workspace settings file
  when \<^verbatim>\<open>inspect\<close> reports a workspace value for the queries, and the user settings
  JSON when it reports none.
\<close>

theorem editQuery_settings_file:
  "(inspectQueries h = Some i \<and> workspaceValue i = Some v \<longrightarrow>
      executedCommands (events (editQuery h label w))
        = executedCommands (events w) @ [''workbench.action.openWorkspaceSettingsFile''])
   \<and> ((\<forall>j. inspectQueries h = Some j \<longrightarrow> workspaceValue j = None) \<longrightarrow>
      executedCommands (events (editQuery h label w))
        = executedCommands (events w) @ [''workbench.action.openSettingsJson''])"
  by (auto simp: editQuery_def editQueryCommand_def emit_def executedCommands_append Let_def
      split: option.splits)

theorem editQuery_settings_file_witness:
  "executedCommands (events (editQuery host0 ''My Issues'' world0))
     = [''workbench.action.openWorkspaceSettingsFile'']
   \<and> executedCommands (events (editQuery (host0\<lparr>inspectQueries := None\<rparr>) ''My Issues'' world0))
     = [''workbench.action.openSettingsJson'']"
  using editQuery_settings_file [of host0
      "\<lparr>defaultValue = Some [], globalValue = None, workspaceValue = Some []\<rparr>" "[]"
      "''My Issues''" world0]
    editQuery_settings_file [of "host0\<lparr>inspectQueries := None\<rparr>" undefined undefined
      "''My Issues''" world0]
  by (simp add: host0_def world0_def)

section \<open>Stopping work\<close>



section \<open>The assignee of a new issue\<close>

lemma match_USER_EXPRESSION_mentions:
  "match_USER_EXPRESSION str =
     (case mentions str of [] \<Rightarrow> None | u # us \<Rightarrow> Some [CHR ''@'' # u, u])"
  by (induction str) auto

text \<open>
  Claim C6 as stated fails: a selection with two mentions, the first of a known user,
  gets that user as assignee.
\<close>

theorem createTodoIssue_two_mentions_counterexample:
  "length (mentions (getText (ni_document newIssue_two)
      (lineRange (ni_document newIssue_two) (start_line (ni_range newIssue_two))))) = 2
   \<and> map_option assignee (createTodoIssue host0 (Some newIssue_two) None) = Some (Some ''alice'')"
  by (simp add: createTodoIssue_def findAssignee_def newIssue_two_def doc_two_def doc0_def
      newIssue0_def host0_def whitespace_def isEmpty_def)

text \<open>
  Claim C6, amended.  The assignee is the user named by the first mention of the text
  when that name is in the user map, whatever follows it; with no mention, or with a
  first mention that names no known user, there is no assignee.  The text is the one
  \<^verbatim>\<open>createTodoIssue\<close> reads from the document, and the assignee is the one the issue
  is created with.
\<close>

theorem findAssignee_first_mention:
  "findAssignee h str =
     (case mentions str of
        [] \<Rightarrow> None
      | u # us \<Rightarrow> if userMap h u = None then None else Some u)
   \<and> (createTodoIssue h (Some n) issueBody = Some ti \<longrightarrow>
        assignee ti = findAssignee h (getText (ni_document n)
          (if isEmpty (ni_range n) then lineRange (ni_document n) (start_line (ni_range n))
           else ni_range n)))
   \<and> (createTodoIssue h None issueBody = Some ti \<and> activeTextEditor h = Some ed \<longrightarrow>
        assignee ti = findAssignee h (getText (ed_document ed) (selection ed)))
   \<and> (getPullRequestDefaults e = Some origin \<longrightarrow>
        events (snd (onDidAccept e h ti (c # cs) w)) ! length (events w)
          = CreateIssue \<lparr>p_owner = owner origin, p_repo = repo origin, p_title = c # cs,
              p_body = issueBodyOrPermalink h (newIssue ti) (body ti),
              p_assignee = assignee ti\<rparr>)"
proof (intro conjI impI)
  show "findAssignee h str =
     (case mentions str of
        [] \<Rightarrow> None
      | u # us \<Rightarrow> if userMap h u = None then None else Some u)"
    by (simp add: findAssignee_def match_USER_EXPRESSION_mentions split: list.splits)
next
  assume "createTodoIssue h (Some n) issueBody = Some ti"
  then show "assignee ti = findAssignee h (getText (ni_document n)
          (if isEmpty (ni_range n) then lineRange (ni_document n) (start_line (ni_range n))
           else ni_range n))"
    by (auto simp: createTodoIssue_def)
next
  assume "createTodoIssue h None issueBody = Some ti \<and> activeTextEditor h = Some ed"
  then show "assignee ti = findAssignee h (getText (ed_document ed) (selection ed))"
    by (auto simp: createTodoIssue_def)
next
  assume "getPullRequestDefaults e = Some origin"
  then show "events (snd (onDidAccept e h ti (c # cs) w)) ! length (events w)
          = CreateIssue \<lparr>p_owner = owner origin, p_repo = repo origin, p_title = c # cs,
              p_body = issueBodyOrPermalink h (newIssue ti) (body ti),
              p_assignee = assignee ti\<rparr>"
    by (auto simp: onDidAccept_def doCreateIssue_def emit_def Let_def nth_append
        split: sum.splits option.splits)
qed

theorem findAssignee_first_mention_witness:
  "findAssignee host0 ''// TODO ask @alice and @bob'' = Some ''alice''
   \<and> findAssignee host0 ''// TODO ask @bob and @alice'' = None
   \<and> findAssignee host0 ''// TODO fix parsing'' = None
   \<and> map_option assignee (createTodoIssue host0 (Some newIssue0) None) = Some (Some ''alice'')"
  using findAssignee_first_mention [of host0 "''// TODO ask @alice and @bob''" newIssue0 None
      "the (createTodoIssue host0 (Some newIssue0) None)" undefined undefined undefined undefined
      undefined undefined]
  by (simp add: createTodoIssue_def findAssignee_def newIssue0_def doc0_def
      host0_def whitespace_def isEmpty_def)

section \<open>What each step of CurrentIssue does\<close>

lemma draftPushes_append: "draftPushes (xs @ ys) = draftPushes xs + draftPushes ys"
  by (induction xs rule: draftPushes.induct) simp_all

lemma attempts_append: "attempts (xs @ ys) = attempts xs @ attempts ys"
  by (induction xs rule: attempts.induct) simp_all

lemma emit_fields:
  "events (emit ev w) = events w @ [ev]"
  "savedIssueState (emit ev w) = savedIssueState w"
  "branches (emit ev w) = branches w"
  "HEAD (emit ev w) = HEAD w"
  "inputBox (emit ev w) = inputBox w"
  by (simp_all add: emit_def)

lemma getSavedIssueState_emit: "getSavedIssueState n (emit ev w) = getSavedIssueState n w"
  by (simp add: getSavedIssueState_def emit_fields)

lemma setSavedIssueState_fields:
  "events (setSavedIssueState im st w) = events w @ [SetSavedIssueState (number im) st]"
  "branches (setSavedIssueState im st w) = branches w"
  "getSavedIssueState n (setSavedIssueState im st w)
     = (if n = number im then st else getSavedIssueState n w)"
  by (simp_all add: setSavedIssueState_def emit_fields getSavedIssueState_def)

lemma saveBranch_fields:
  "events (saveBranch t w) = events w @ [SetSavedIssueState (number (issueModel t))
      ((getSavedIssueState (number (issueModel t)) w)\<lparr>branch := branchName t\<rparr>)]"
  "branches (saveBranch t w) = branches w"
  "hasDraftPR (getSavedIssueState n (saveBranch t w)) = hasDraftPR (getSavedIssueState n w)"
  "branch (getSavedIssueState n (saveBranch t w))
     = (if n = number (issueModel t) then branchName t else branch (getSavedIssueState n w))"
  by (simp_all add: saveBranch_def setSavedIssueState_fields)

lemma createOrCheckoutBranch_fields:
  "isl (fst (createOrCheckoutBranch e b w)) = attemptFails e b w"
  "events (snd (createOrCheckoutBranch e b w))
     = events w @ [GetBranch b, if b \<in> set (branches w) then Checkout b else CreateBranch b]"
  "getSavedIssueState n (snd (createOrCheckoutBranch e b w)) = getSavedIssueState n w"
  "attemptFails e b w \<Longrightarrow> branches (snd (createOrCheckoutBranch e b w)) = branches w"
  by (simp_all add: createOrCheckoutBranch_def branchExists_def checkout_def createBranch_def
      attemptFails_def Let_def emit_fields getSavedIssueState_def)

lemma getUser_fields:
  "fst (getUser e t) = (if falsy (user t) then getAuthenticatedUser e else js_str (user t))"
  "issueModel (snd (getUser e t)) = issueModel t"
  "branchName (snd (getUser e t)) = branchName t"
  "shouldPromptForBranch (snd (getUser e t)) = shouldPromptForBranch t"
  "repoDefaults (snd (getUser e t)) = repoDefaults t"
  "ci_repo (snd (getUser e t)) = ci_repo t"
  "statusBarItem (snd (getUser e t)) = statusBarItem t"
  "fst (getUser e (snd (getUser e t))) = fst (getUser e t)"
  "user (snd (getUser e t)) = (if falsy (user t) then Some (getAuthenticatedUser e) else user t)"
  by (auto simp: getUser_def falsy_def js_str_def split: option.splits)

lemma falsy_Some [simp]: "falsy (Some v) = (v = [])" and falsy_None [simp]: "falsy None"
  by (simp_all add: falsy_def)

lemma js_str_Some [simp]: "js_str (Some v) = v"
  by (simp add: js_str_def)

lemma getBasicBranchName_nonempty: "getBasicBranchName t u \<noteq> []"
  by (simp add: getBasicBranchName_def)

text \<open>The name the first half of createIssueBranch arrives at.\<close>

lemma resolveBranchName_prompt:
  assumes "shouldPromptForBranch t \<or>
           (falsy (branch (getSavedIssueState (number (issueModel t)) w))
            \<and> branchConfiguration e \<noteq> Some ''on'')"
  shows "snd (resolveBranchName e t w)
           = emit (ShowInputBox (''issue'' @ toString (number (issueModel t)))
                ''Enter the label for the new branch.'') w"
    and "branchName (fst (resolveBranchName e t w))
           = (if falsy (showInputBox e) then Some (getBasicBranchName t (fst (getUser e t)))
              else showInputBox e)"
  using assms
  by (auto simp: resolveBranchName_def createBranchConfig_def Let_def case_prod_unfold
      getUser_fields getBasicBranchName_def)

lemma resolveBranchName_saved:
  assumes "\<not> shouldPromptForBranch t"
    and "\<not> falsy (branch (getSavedIssueState (number (issueModel t)) w))"
  shows "resolveBranchName e t w
           = (t\<lparr>branchName := branch (getSavedIssueState (number (issueModel t)) w)\<rparr>, w)"
  using assms
  by (simp add: resolveBranchName_def Let_def)

lemma resolveBranchName_on:
  assumes "\<not> shouldPromptForBranch t"
    and "falsy (branch (getSavedIssueState (number (issueModel t)) w))"
    and "branchConfiguration e = Some ''on''"
  shows "snd (resolveBranchName e t w) = w"
    and "branchName (fst (resolveBranchName e t w))
           = Some (if variableSubstitution e (branchNameConfiguration e) (issueModel t) None
                        (Some (fst (getUser e t))) = []
                   then getBasicBranchName t (fst (getUser e t))
                   else variableSubstitution e (branchNameConfiguration e) (issueModel t) None
                        (Some (fst (getUser e t))))"
  using assms
  by (auto simp: resolveBranchName_def createBranchConfig_def Let_def case_prod_unfold
      getUser_fields getBasicBranchName_def)

lemma resolveBranchName_fields:
  "issueModel (fst (resolveBranchName e t w)) = issueModel t"
  "\<not> falsy (branchName (fst (resolveBranchName e t w)))"
  "fst (getUser e (fst (resolveBranchName e t w))) = fst (getUser e t)"
  "repoDefaults (fst (resolveBranchName e t w)) = repoDefaults t"
  "ci_repo (fst (resolveBranchName e t w)) = ci_repo t"
  "getSavedIssueState n (snd (resolveBranchName e t w)) = getSavedIssueState n w"
  "branches (snd (resolveBranchName e t w)) = branches w"
  "draftPushes (events (snd (resolveBranchName e t w))) = draftPushes (events w)"
  "attempts (events (snd (resolveBranchName e t w))) = attempts (events w)"
  by (auto simp: resolveBranchName_def Let_def case_prod_unfold getUser_fields
      getBasicBranchName_def emit_fields getSavedIssueState_emit draftPushes_append
      attempts_append getUser_def)

text \<open>The three ways the second half of createIssueBranch can go.\<close>

lemma checkoutIssueBranch_first_try:
  assumes "\<not> attemptFails e (js_str (branchName t)) w"
  shows "checkoutIssueBranch e t w
           = (Inr (), t, snd (createOrCheckoutBranch e (js_str (branchName t)) w))"
  using assms createOrCheckoutBranch_fields(1) [of e "js_str (branchName t)" w]
  by (simp add: checkoutIssueBranch_def case_prod_unfold sum.case_eq_if)

lemma checkoutIssueBranch_gives_up:
  assumes "attemptFails e (js_str (branchName t)) w"
    and "branchName t = Some (getBasicBranchName t (fst (getUser e t)))"
  shows "checkoutIssueBranch e t w
           = (Inr (), (snd (getUser e t))\<lparr>branchName := None\<rparr>,
              emit (ShowErrorMessage (''Unable to checkout branch ''
                      @ getBasicBranchName t (fst (getUser e t))
                      @ ''. There may be file conflicts that prevent this branch change.''))
                (snd (createOrCheckoutBranch e (getBasicBranchName t (fst (getUser e t))) w)))"
  using assms
    createOrCheckoutBranch_fields(1) [of e "getBasicBranchName t (fst (getUser e t))" w]
  by (simp add: checkoutIssueBranch_def case_prod_unfold sum.case_eq_if Let_def
      getUser_fields getBasicBranchName_def)

lemma checkoutIssueBranch_retry:
  assumes "attemptFails e (js_str (branchName t)) w"
    and "branchName t \<noteq> Some (getBasicBranchName t (fst (getUser e t)))"
  shows "checkoutIssueBranch e t w
           = (fst (createOrCheckoutBranch e (getBasicBranchName t (fst (getUser e t)))
                 (saveBranch ((snd (getUser e t))
                      \<lparr>branchName := Some (getBasicBranchName t (fst (getUser e t)))\<rparr>)
                    (emit (ShowErrorMessage (''Unable to create branch with name ''
                        @ js_str (branchName t) @ ''. Using ''
                        @ getBasicBranchName t (fst (getUser e t)) @ '' instead.''))
                      (snd (createOrCheckoutBranch e (js_str (branchName t)) w))))),
              (snd (getUser e t))
                 \<lparr>branchName := Some (getBasicBranchName t (fst (getUser e t)))\<rparr>,
              snd (createOrCheckoutBranch e (getBasicBranchName t (fst (getUser e t)))
                 (saveBranch ((snd (getUser e t))
                      \<lparr>branchName := Some (getBasicBranchName t (fst (getUser e t)))\<rparr>)
                    (emit (ShowErrorMessage (''Unable to create branch with name ''
                        @ js_str (branchName t) @ ''. Using ''
                        @ getBasicBranchName t (fst (getUser e t)) @ '' instead.''))
                      (snd (createOrCheckoutBranch e (js_str (branchName t)) w))))))"
  using assms createOrCheckoutBranch_fields(1) [of e "js_str (branchName t)" w]
  by (simp add: checkoutIssueBranch_def case_prod_unfold sum.case_eq_if Let_def
      getUser_fields getBasicBranchName_def)

lemma attemptFails_branches:
  "branches w' = branches w \<Longrightarrow> attemptFails e b w' = attemptFails e b w"
  by (simp add: attemptFails_def)

lemma Inr_unit: "\<not> isl (x :: error + unit) \<Longrightarrow> x = Inr ()"
  by (cases x) simp_all

lemma createIssueBranch_off:
  "createBranchConfig e t = Some ''off'' \<Longrightarrow> createIssueBranch e t w = (Inr (), t, w)"
  by (simp add: createIssueBranch_def)

lemma createIssueBranch_on:
  "createBranchConfig e t \<noteq> Some ''off'' \<Longrightarrow>
     createIssueBranch e t w
       = checkoutIssueBranch e (fst (resolveBranchName e t w))
           (saveBranch (fst (resolveBranchName e t w)) (snd (resolveBranchName e t w)))"
  by (simp add: createIssueBranch_def case_prod_unfold)

text \<open>The log, the persisted state and the tracker after createIssueBranch, case by case.\<close>

lemma createIssueBranch_cases:
  assumes cfg: "createBranchConfig e t \<noteq> Some ''off''"
    and res: "resolveBranchName e t w = (t1, w1)"
    and out: "createIssueBranch e t w = (r, t', w')"
  defines "n \<equiv> number (issueModel t)"
  defines "name \<equiv> js_str (branchName t1)"
  defines "basic \<equiv> getBasicBranchName t (fst (getUser e t))"
  defines "try b \<equiv> [GetBranch b, if b \<in> set (branches w) then Checkout b else CreateBranch b]"
  defines "save b \<equiv> SetSavedIssueState n ((getSavedIssueState n w)\<lparr>branch := Some b\<rparr>)"
  shows "\<not> attemptFails e name w \<Longrightarrow>
           r = Inr () \<and> t' = t1 \<and> events w' = events w1 @ save name # try name
           \<and> branch (getSavedIssueState n w') = Some name"
    and "attemptFails e name w \<Longrightarrow> name = basic \<Longrightarrow>
           r = Inr () \<and> branchName t' = None
           \<and> events w' = events w1 @ save name # try name
               @ [ShowErrorMessage (''Unable to checkout branch '' @ basic
                    @ ''. There may be file conflicts that prevent this branch change.'')]
           \<and> branch (getSavedIssueState n w') = Some basic"
    and "attemptFails e name w \<Longrightarrow> name \<noteq> basic \<Longrightarrow>
           isl r = attemptFails e basic w \<and> branchName t' = Some basic
           \<and> events w' = events w1 @ save name # try name
               @ ShowErrorMessage (''Unable to create branch with name '' @ name
                    @ ''. Using '' @ basic @ '' instead.'')
               # save basic # try basic
           \<and> branch (getSavedIssueState n w') = Some basic"
    and "issueModel t' = issueModel t"
    and "hasDraftPR (getSavedIssueState m w') = hasDraftPR (getSavedIssueState m w)"
    and "repoDefaults t' = repoDefaults t" and "ci_repo t' = ci_repo t"
proof -
  have t1: "t1 = fst (resolveBranchName e t w)" and w1: "w1 = snd (resolveBranchName e t w)"
    using res by simp_all
  have nm: "branchName t1 = Some name"
    using resolveBranchName_fields(2) [of e t w] unfolding t1 name_def
    by (cases "branchName (fst (resolveBranchName e t w))") simp_all
  have im: "issueModel t1 = issueModel t" and us: "fst (getUser e t1) = fst (getUser e t)"
    and br: "branches w1 = branches w"
    and st: "\<And>k. getSavedIssueState k w1 = getSavedIssueState k w"
    unfolding t1 w1 by (simp_all add: resolveBranchName_fields)
  have bs: "getBasicBranchName t1 (fst (getUser e t1)) = basic"
    unfolding basic_def us by (simp add: getBasicBranchName_def im)
  have fl: "attemptFails e name (saveBranch t1 w1) = attemptFails e name w"
    by (rule attemptFails_branches) (simp add: saveBranch_fields br)
  have eq: "checkoutIssueBranch e t1 (saveBranch t1 w1) = (r, t', w')"
    using out createIssueBranch_on [OF cfg, of w] t1 w1 by simp
  {
    assume ok: "\<not> attemptFails e name w"
    from checkoutIssueBranch_first_try [of e t1 "saveBranch t1 w1"] ok fl nm eq
    have "r = Inr ()" "t' = t1" "w' = snd (createOrCheckoutBranch e name (saveBranch t1 w1))"
      by simp_all
    then show "r = Inr () \<and> t' = t1 \<and> events w' = events w1 @ save name # try name
           \<and> branch (getSavedIssueState n w') = Some name"
      by (simp add: createOrCheckoutBranch_fields saveBranch_fields save_def try_def n_def im
          st br nm)
  }
  {
    assume bad: "attemptFails e name w" and same: "name = basic"
    from checkoutIssueBranch_gives_up [of e t1 "saveBranch t1 w1"] bad fl nm bs same eq
    have "r = Inr ()" "t' = (snd (getUser e t1))\<lparr>branchName := None\<rparr>"
      "w' = emit (ShowErrorMessage (''Unable to checkout branch '' @ basic
                    @ ''. There may be file conflicts that prevent this branch change.''))
              (snd (createOrCheckoutBranch e basic (saveBranch t1 w1)))"
      by simp_all
    then show "r = Inr () \<and> branchName t' = None
           \<and> events w' = events w1 @ save name # try name
               @ [ShowErrorMessage (''Unable to checkout branch '' @ basic
                    @ ''. There may be file conflicts that prevent this branch change.'')]
           \<and> branch (getSavedIssueState n w') = Some basic"
      using same
      by (simp add: createOrCheckoutBranch_fields saveBranch_fields save_def try_def n_def im
          st br nm emit_fields getSavedIssueState_emit)
  }
  {
    assume bad: "attemptFails e name w" and other: "name \<noteq> basic"
    let ?t2 = "(snd (getUser e t1))\<lparr>branchName := Some basic\<rparr>"
    let ?w3 = "saveBranch ?t2
                 (emit (ShowErrorMessage (''Unable to create branch with name '' @ name
                    @ ''. Using '' @ basic @ '' instead.''))
                   (snd (createOrCheckoutBranch e name (saveBranch t1 w1))))"
    from checkoutIssueBranch_retry [of e t1 "saveBranch t1 w1"] bad fl nm bs other eq
    have r: "r = fst (createOrCheckoutBranch e basic ?w3)" and t': "t' = ?t2"
      and w': "w' = snd (createOrCheckoutBranch e basic ?w3)"
      by simp_all
    have b3: "branches ?w3 = branches w"
      using bad fl
      by (simp add: saveBranch_fields emit_fields createOrCheckoutBranch_fields br)
    show "isl r = attemptFails e basic w \<and> branchName t' = Some basic
           \<and> events w' = events w1 @ save name # try name
               @ ShowErrorMessage (''Unable to create branch with name '' @ name
                    @ ''. Using '' @ basic @ '' instead.'')
               # save basic # try basic
           \<and> branch (getSavedIssueState n w') = Some basic"
      unfolding r t' w'
      using attemptFails_branches [OF b3, of e basic] b3
      by (simp add: createOrCheckoutBranch_fields saveBranch_fields save_def try_def n_def im
          st br nm emit_fields getSavedIssueState_emit getUser_fields)
  }
  show "issueModel t' = issueModel t"
    using eq im
    by (auto simp: checkoutIssueBranch_def case_prod_unfold Let_def getUser_fields
        split: sum.splits if_splits)
  show "repoDefaults t' = repoDefaults t"
    using eq t1
    by (auto simp: checkoutIssueBranch_def case_prod_unfold Let_def getUser_fields
        resolveBranchName_fields split: sum.splits if_splits)
  show "ci_repo t' = ci_repo t"
    using eq t1
    by (auto simp: checkoutIssueBranch_def case_prod_unfold Let_def getUser_fields
        resolveBranchName_fields split: sum.splits if_splits)
  show "hasDraftPR (getSavedIssueState m w') = hasDraftPR (getSavedIssueState m w)"
    using eq st [of m]
    by (auto simp: checkoutIssueBranch_def case_prod_unfold Let_def getUser_fields
        createOrCheckoutBranch_fields saveBranch_fields emit_fields getSavedIssueState_emit
        split: sum.splits if_splits)
qed

lemma attempts_try [simp]:
  "attempts (GetBranch b # (if c then Checkout b else CreateBranch b) # evs) = b # attempts evs"
  by simp

lemma draftPushes_try [simp]:
  "draftPushes (GetBranch b # (if c then Checkout b else CreateBranch b) # evs) = draftPushes evs"
  by simp

lemma fetchDefaults_fields:
  "issueModel (fst (fetchDefaults e t w)) = issueModel t"
  "shouldPromptForBranch (fst (fetchDefaults e t w)) = shouldPromptForBranch t"
  "user (fst (fetchDefaults e t w)) = user t"
  "ci_repo (fst (fetchDefaults e t w)) = ci_repo t"
  "repoDefaults (fst (fetchDefaults e t w))
     = (case getPullRequestDefaults e of None \<Rightarrow> repoDefaults t | Some d \<Rightarrow> Some d)"
  "createBranchConfig e (fst (fetchDefaults e t w)) = createBranchConfig e t"
  "fst (getUser e (fst (fetchDefaults e t w))) = fst (getUser e t)"
  "getSavedIssueState n (snd (fetchDefaults e t w)) = getSavedIssueState n w"
  "branches (snd (fetchDefaults e t w)) = branches w"
  "draftPushes (events (snd (fetchDefaults e t w))) = draftPushes (events w)"
  "attempts (events (snd (fetchDefaults e t w))) = attempts (events w)"
  by (simp_all add: fetchDefaults_def createBranchConfig_def getUser_def emit_fields
      getSavedIssueState_emit draftPushes_append attempts_append split: option.splits)

lemma setCommitMessageAndGitEvent_fields:
  "events (setCommitMessageAndGitEvent e t w) = events w"
  "getSavedIssueState n (setCommitMessageAndGitEvent e t w) = getSavedIssueState n w"
  "inputBox (setCommitMessageAndGitEvent e t w)
     = (case (ci_repo t, workingIssueFormatScm e) of
          (Some r, Some configuration) \<Rightarrow> (inputBox w)
             (r := variableSubstitution e configuration (issueModel t) (repoDefaults t) None)
        | _ \<Rightarrow> inputBox w)"
  by (simp_all add: setCommitMessageAndGitEvent_def getSavedIssueState_def split: option.splits)

lemma setStatusBar_fields:
  "events (snd (setStatusBar e t w))
     = events w @ [StatusBarShow (''$(issues) Issue ''
                      @ getIssueNumberLabel e (issueModel t) (repoDefaults t))]"
  "getSavedIssueState n (snd (setStatusBar e t w)) = getSavedIssueState n w"
  "inputBox (snd (setStatusBar e t w)) = inputBox w"
  "issueModel (fst (setStatusBar e t w)) = issueModel t"
  "branchName (fst (setStatusBar e t w)) = branchName t"
  "repoDefaults (fst (setStatusBar e t w)) = repoDefaults t"
  "statusBarItem (fst (setStatusBar e t w))
     = Some \<lparr>sb_text = ''$(issues) Issue ''
                 @ getIssueNumberLabel e (issueModel t) (repoDefaults t),
             sb_tooltip = title (issueModel t), sb_command = ''issue.statusBar''\<rparr>"
  by (simp_all add: setStatusBar_def Let_def emit_fields getSavedIssueState_emit)

lemma createDraftPR_fields:
  "branch (getSavedIssueState n (createDraftPR e t w)) = branch (getSavedIssueState n w)"
  "inputBox (createDraftPR e t w) = inputBox w"
  "hasDraftPR (getSavedIssueState (number (issueModel t)) w) \<Longrightarrow> createDraftPR e t w = w"
  "falsy (branchName t) \<Longrightarrow> createDraftPR e t w = w"
  "set (events w) \<subseteq> set (events (createDraftPR e t w))"
proof -
  show "branch (getSavedIssueState n (createDraftPR e t w)) = branch (getSavedIssueState n w)"
    by (simp add: createDraftPR_def Let_def setSavedIssueState_fields getSavedIssueState_emit)
  show "inputBox (createDraftPR e t w) = inputBox w"
    by (simp add: createDraftPR_def Let_def setSavedIssueState_def emit_def)
  show "hasDraftPR (getSavedIssueState (number (issueModel t)) w) \<Longrightarrow> createDraftPR e t w = w"
    by (simp add: createDraftPR_def)
  show "falsy (branchName t) \<Longrightarrow> createDraftPR e t w = w"
    by (simp add: createDraftPR_def)
  show "set (events w) \<subseteq> set (events (createDraftPR e t w))"
    by (auto simp: createDraftPR_def Let_def setSavedIssueState_fields emit_fields)
qed

text \<open>startWorking after its first two steps.\<close>

lemma startWorking_steps:
  assumes "fetchDefaults e t w = (t0, w0)"
    and "createIssueBranch e t0 w0 = (r2, t2, w2)"
  shows "isl r2 \<Longrightarrow> startWorking e t w = (r2, t2, w2)"
    and "\<not> isl r2 \<Longrightarrow>
           startWorking e t w
             = (Inr (), fst (setStatusBar e t2 (setCommitMessageAndGitEvent e t2 w2)),
                createDraftPR e (fst (setStatusBar e t2 (setCommitMessageAndGitEvent e t2 w2)))
                  (snd (setStatusBar e t2 (setCommitMessageAndGitEvent e t2 w2))))"
  using assms
  by (auto simp: startWorking_def case_prod_unfold split: sum.splits)

text \<open>The definitions a concrete run unfolds.\<close>

lemmas model_defs =
  createIssueBranch_def resolveBranchName_def checkoutIssueBranch_def saveBranch_def
  createOrCheckoutBranch_def branchExists_def checkout_def createBranch_def
  createBranchConfig_def getUser_def getBasicBranchName_def getSavedIssueState_def
  setSavedIssueState_def emit_def attemptFails_def toString.simps digit_def Let_def

lemmas startWorking_defs =
  startWorking_def fetchDefaults_def setStatusBar_def setCommitMessageAndGitEvent_def
  createDraftPR_def

lemmas example_defs = env_prompt_def tracker7_def world0_def issue7_def

section \<open>The working branch\<close>

text \<open>
  Claim C1 as stated fails: when the prompt is left blank the resolved name is
  \<^verbatim>\<open>alice/issue7\<close>, its creation fails, and nothing is tried after it.
\<close>

theorem createIssueBranch_no_retry_counterexample:
  "attemptFails env_prompt ''alice/issue7'' world0
   \<and> branchName (fst (resolveBranchName env_prompt tracker7 world0)) = Some ''alice/issue7''
   \<and> attempts (events (snd (snd (createIssueBranch env_prompt tracker7 world0))))
       = [''alice/issue7'']"
  by (simp add: model_defs example_defs)

text \<open>
  Claim C1, amended.  When the checkout or creation of the resolved name fails and that
  name is not \<^verbatim>\<open><user>/issue<N>\<close>, \<^verbatim>\<open>createIssueBranch\<close> tries exactly once more,
  with \<^verbatim>\<open><user>/issue<N>\<close>, and that name is the one persisted; the call rejects
  exactly when that second try fails.  When the resolved name already is
  \<^verbatim>\<open><user>/issue<N>\<close> there is no second try: an error message is shown and the
  tracker is left without a branch name.  When the first try succeeds there is no other.
\<close>

theorem createIssueBranch_retry_once:
  assumes "createBranchConfig e t \<noteq> Some ''off''"
    and "resolveBranchName e t w = (t1, w1)"
    and "createIssueBranch e t w = (r, t', w')"
  shows "(\<not> attemptFails e (js_str (branchName t1)) w \<longrightarrow>
            attempts (events w') = attempts (events w) @ [js_str (branchName t1)]
            \<and> r = Inr () \<and> branchName t' = branchName t1
            \<and> branch (getSavedIssueState (number (issueModel t)) w') = branchName t1)
       \<and> (attemptFails e (js_str (branchName t1)) w
            \<and> js_str (branchName t1) \<noteq> getBasicBranchName t (fst (getUser e t)) \<longrightarrow>
            attempts (events w') = attempts (events w)
               @ [js_str (branchName t1), getBasicBranchName t (fst (getUser e t))]
            \<and> isl r = attemptFails e (getBasicBranchName t (fst (getUser e t))) w
            \<and> branchName t' = Some (getBasicBranchName t (fst (getUser e t)))
            \<and> branch (getSavedIssueState (number (issueModel t)) w')
                = Some (getBasicBranchName t (fst (getUser e t))))
       \<and> (attemptFails e (js_str (branchName t1)) w
            \<and> js_str (branchName t1) = getBasicBranchName t (fst (getUser e t)) \<longrightarrow>
            attempts (events w') = attempts (events w) @ [js_str (branchName t1)]
            \<and> r = Inr () \<and> branchName t' = None
            \<and> last (events w') = ShowErrorMessage (''Unable to checkout branch ''
                 @ getBasicBranchName t (fst (getUser e t))
                 @ ''. There may be file conflicts that prevent this branch change.''))"
proof -
  obtain name where nm: "branchName t1 = Some name"
    using resolveBranchName_fields(2) [of e t w] assms(2)
    by (cases "branchName t1") simp_all
  have a: "attempts (events w1) = attempts (events w)"
    using resolveBranchName_fields(9) [of e t w] assms(2) by simp
  have c1: "\<not> attemptFails e name w \<Longrightarrow>
      attempts (events w') = attempts (events w) @ [name] \<and> r = Inr () \<and> t' = t1
      \<and> branch (getSavedIssueState (number (issueModel t)) w') = Some name"
    using createIssueBranch_cases(1) [OF assms] a by (simp add: nm attempts_append)
  have c2: "attemptFails e name w \<Longrightarrow> name \<noteq> getBasicBranchName t (fst (getUser e t)) \<Longrightarrow>
      attempts (events w') = attempts (events w) @ [name, getBasicBranchName t (fst (getUser e t))]
      \<and> isl r = attemptFails e (getBasicBranchName t (fst (getUser e t))) w
      \<and> branchName t' = Some (getBasicBranchName t (fst (getUser e t)))
      \<and> branch (getSavedIssueState (number (issueModel t)) w')
          = Some (getBasicBranchName t (fst (getUser e t)))"
    using createIssueBranch_cases(3) [OF assms] a by (simp add: nm attempts_append)
  have c3: "attemptFails e name w \<Longrightarrow> name = getBasicBranchName t (fst (getUser e t)) \<Longrightarrow>
      attempts (events w') = attempts (events w) @ [name] \<and> r = Inr () \<and> branchName t' = None
      \<and> last (events w') = ShowErrorMessage (''Unable to checkout branch ''
                 @ getBasicBranchName t (fst (getUser e t))
                 @ ''. There may be file conflicts that prevent this branch change.'')"
    using createIssueBranch_cases(2) [OF assms] a by (simp add: nm attempts_append)
  show ?thesis
    using c1 c2 c3 by (auto simp: nm)
qed

theorem createIssueBranch_retry_once_witness:
  "attemptFails env_retry ''feature'' world0
   \<and> attempts (events (snd (snd (createIssueBranch env_retry tracker7 world0))))
       = [''feature'', ''alice/issue7'']
   \<and> fst (createIssueBranch env_retry tracker7 world0) = Inr ()
   \<and> branch (getSavedIssueState 7 (snd (snd (createIssueBranch env_retry tracker7 world0))))
       = Some ''alice/issue7''"
  using createIssueBranch_retry_once [of env_retry tracker7 world0
      "fst (resolveBranchName env_retry tracker7 world0)"
      "snd (resolveBranchName env_retry tracker7 world0)"
      "fst (createIssueBranch env_retry tracker7 world0)"
      "fst (snd (createIssueBranch env_retry tracker7 world0))"
      "snd (snd (createIssueBranch env_retry tracker7 world0))"]
  by (simp add: model_defs example_defs env_retry_def)

text \<open>
  Claim C10.  \<^verbatim>\<open>createIssueBranch\<close> persists the resolved name right after resolving
  it, before any checkout or branch creation is attempted.  So when the resolved name
  already is \<^verbatim>\<open><user>/issue<N>\<close> and its checkout or creation fails,
  \<^verbatim>\<open>startWorking\<close> returns normally with the tracker left without a branch name, the
  persisted state still holds that name, and no draft pull request is pushed.
\<close>

theorem startWorking_basic_name_fails:
  assumes "createBranchConfig e t \<noteq> Some ''off''"
    and "fetchDefaults e t w = (t0, w0)"
    and "resolveBranchName e t0 w0 = (t1, w1)"
    and "createIssueBranch e t0 w0 = (r2, t2, w2)"
    and "startWorking e t w = (r, t', w')"
  shows "take (Suc (length (events w1))) (events w2)
           = events w1 @ [SetSavedIssueState (number (issueModel t))
                ((getSavedIssueState (number (issueModel t)) w)\<lparr>branch := branchName t1\<rparr>)]
     \<and> attempts (events w1) = attempts (events w)
     \<and> (branchName t1 = Some (getBasicBranchName t (fst (getUser e t)))
          \<and> attemptFails e (getBasicBranchName t (fst (getUser e t))) w \<longrightarrow>
        r = Inr () \<and> branchName t' = None
        \<and> branch (getSavedIssueState (number (issueModel t)) w')
            = Some (getBasicBranchName t (fst (getUser e t)))
        \<and> draftPushes (events w') = draftPushes (events w))"
proof -
  have t0: "t0 = fst (fetchDefaults e t w)" and w0: "w0 = snd (fetchDefaults e t w)"
    using assms(2) by simp_all
  have cfg: "createBranchConfig e t0 \<noteq> Some ''off''"
    using assms(1) by (simp add: t0 fetchDefaults_fields)
  have im: "issueModel t0 = issueModel t" and us: "fst (getUser e t0) = fst (getUser e t)"
    and st: "\<And>k. getSavedIssueState k w0 = getSavedIssueState k w"
    and br: "branches w0 = branches w"
    and dp: "draftPushes (events w0) = draftPushes (events w)"
    and at: "attempts (events w0) = attempts (events w)"
    by (simp_all add: t0 w0 fetchDefaults_fields)
  have bs: "getBasicBranchName t0 (fst (getUser e t0)) = getBasicBranchName t (fst (getUser e t))"
    by (simp add: getBasicBranchName_def im us)
  have fl: "\<And>b. attemptFails e b w0 = attemptFails e b w"
    by (rule attemptFails_branches) (rule br)
  obtain name where nm: "branchName t1 = Some name"
    using resolveBranchName_fields(2) [of e t0 w0] assms(3)
    by (cases "branchName t1") simp_all
  note cases = createIssueBranch_cases [OF cfg assms(3) assms(4)]
  have a1: "attempts (events w1) = attempts (events w)"
    using resolveBranchName_fields(9) [of e t0 w0] assms(3) at by simp
  have d1: "draftPushes (events w1) = draftPushes (events w)"
    using resolveBranchName_fields(8) [of e t0 w0] assms(3) dp by simp
  have pre: "take (Suc (length (events w1))) (events w2)
           = events w1 @ [SetSavedIssueState (number (issueModel t))
                ((getSavedIssueState (number (issueModel t)) w)\<lparr>branch := branchName t1\<rparr>)]"
  proof (cases "attemptFails e name w0")
    case False
    then show ?thesis using cases(1) by (simp add: nm im st)
  next
    case True
    show ?thesis
    proof (cases "name = getBasicBranchName t0 (fst (getUser e t0))")
      case True
      with \<open>attemptFails e name w0\<close> show ?thesis using cases(2) by (simp add: nm im st)
    next
      case False
      with \<open>attemptFails e name w0\<close> show ?thesis using cases(3) by (simp add: nm im st)
    qed
  qed
  have fin: "r = Inr () \<and> branchName t' = None
        \<and> branch (getSavedIssueState (number (issueModel t)) w')
            = Some (getBasicBranchName t (fst (getUser e t)))
        \<and> draftPushes (events w') = draftPushes (events w)"
    if same: "branchName t1 = Some (getBasicBranchName t (fst (getUser e t)))"
      and bad: "attemptFails e (getBasicBranchName t (fst (getUser e t))) w"
  proof -
    have n: "name = getBasicBranchName t0 (fst (getUser e t0))"
      using same nm bs by simp
    have f: "attemptFails e name w0"
      using bad fl n bs by simp
    have c: "r2 = Inr ()" "branchName t2 = None"
      "branch (getSavedIssueState (number (issueModel t)) w2)
         = Some (getBasicBranchName t (fst (getUser e t)))"
      "draftPushes (events w2) = draftPushes (events w)"
      using cases(2) n f d1 by (simp_all add: nm im bs draftPushes_append)
    have "startWorking e t w
             = (Inr (), fst (setStatusBar e t2 (setCommitMessageAndGitEvent e t2 w2)),
                createDraftPR e (fst (setStatusBar e t2 (setCommitMessageAndGitEvent e t2 w2)))
                  (snd (setStatusBar e t2 (setCommitMessageAndGitEvent e t2 w2))))"
      using startWorking_steps(2) [OF assms(2) assms(4)] c(1) by simp
    then have r: "r = Inr ()"
      and t': "t' = fst (setStatusBar e t2 (setCommitMessageAndGitEvent e t2 w2))"
      and w': "w' = createDraftPR e t' (snd (setStatusBar e t2 (setCommitMessageAndGitEvent e t2 w2)))"
      using assms(5) by simp_all
    have bn: "branchName t' = None"
      by (simp add: t' setStatusBar_fields c(2))
    have w'': "w' = snd (setStatusBar e t2 (setCommitMessageAndGitEvent e t2 w2))"
      unfolding w' by (rule createDraftPR_fields(4)) (simp add: bn)
    show ?thesis
      using r bn c(3,4)
      by (simp add: w'' setStatusBar_fields setCommitMessageAndGitEvent_fields
          draftPushes_append)
  qed
  show ?thesis
    using pre a1 fin by blast
qed

theorem startWorking_basic_name_fails_witness:
  "branchName (fst (resolveBranchName env_prompt (fst (fetchDefaults env_prompt tracker7 world0))
      (snd (fetchDefaults env_prompt tracker7 world0)))) = Some ''alice/issue7''
   \<and> attemptFails env_prompt ''alice/issue7'' world0
   \<and> fst (startWorking env_prompt tracker7 world0) = Inr ()
   \<and> branchName (fst (snd (startWorking env_prompt tracker7 world0))) = None
   \<and> branch (getSavedIssueState 7 (snd (snd (startWorking env_prompt tracker7 world0))))
       = Some ''alice/issue7''
   \<and> draftPushes (events (snd (snd (startWorking env_prompt tracker7 world0)))) = 0"
  using startWorking_basic_name_fails [of env_prompt tracker7 world0
      "fst (fetchDefaults env_prompt tracker7 world0)"
      "snd (fetchDefaults env_prompt tracker7 world0)"
      "fst (resolveBranchName env_prompt (fst (fetchDefaults env_prompt tracker7 world0))
         (snd (fetchDefaults env_prompt tracker7 world0)))"
      "snd (resolveBranchName env_prompt (fst (fetchDefaults env_prompt tracker7 world0))
         (snd (fetchDefaults env_prompt tracker7 world0)))"
      "fst (createIssueBranch env_prompt (fst (fetchDefaults env_prompt tracker7 world0))
         (snd (fetchDefaults env_prompt tracker7 world0)))"
      "fst (snd (createIssueBranch env_prompt (fst (fetchDefaults env_prompt tracker7 world0))
         (snd (fetchDefaults env_prompt tracker7 world0))))"
      "snd (snd (createIssueBranch env_prompt (fst (fetchDefaults env_prompt tracker7 world0))
         (snd (fetchDefaults env_prompt tracker7 world0))))"
      "fst (startWorking env_prompt tracker7 world0)"
      "fst (snd (startWorking env_prompt tracker7 world0))"
      "snd (snd (startWorking env_prompt tracker7 world0))"]
  by (simp add: model_defs startWorking_defs example_defs)

section \<open>The draft pull request\<close>

text \<open>What createIssueBranch never does, whatever the configuration.\<close>

lemma createIssueBranch_quiet:
  "draftPushes (events (snd (snd (createIssueBranch e t w)))) = draftPushes (events w)"
  "hasDraftPR (getSavedIssueState m (snd (snd (createIssueBranch e t w))))
     = hasDraftPR (getSavedIssueState m w)"
  "issueModel (fst (snd (createIssueBranch e t w))) = issueModel t"
  "repoDefaults (fst (snd (createIssueBranch e t w))) = repoDefaults t"
  "ci_repo (fst (snd (createIssueBranch e t w))) = ci_repo t"
proof -
  let ?c = "createIssueBranch e t w"
  let ?r = "resolveBranchName e t w"
  show "draftPushes (events (snd (snd ?c))) = draftPushes (events w)"
  proof (cases "createBranchConfig e t = Some ''off''")
    case True
    then show ?thesis by (simp add: createIssueBranch_off)
  next
    case False
    note cs = createIssueBranch_cases(1-3) [OF False, of w "fst ?r" "snd ?r" "fst ?c"
        "fst (snd ?c)" "snd (snd ?c)"]
    have d: "draftPushes (events (snd ?r)) = draftPushes (events w)"
      by (simp add: resolveBranchName_fields)
    show ?thesis
    proof (cases "attemptFails e (js_str (branchName (fst ?r))) w")
      case False
      then show ?thesis using cs(1) d by (simp add: draftPushes_append)
    next
      case True
      then show ?thesis
        using cs(2,3) d
        by (cases "js_str (branchName (fst ?r)) = getBasicBranchName t (fst (getUser e t))")
          (simp_all add: draftPushes_append)
    qed
  qed
  show "hasDraftPR (getSavedIssueState m (snd (snd ?c))) = hasDraftPR (getSavedIssueState m w)"
  proof (cases "createBranchConfig e t = Some ''off''")
    case True
    then show ?thesis by (simp add: createIssueBranch_off)
  next
    case False
    show ?thesis
      using createIssueBranch_cases(5) [OF False, of w "fst ?r" "snd ?r" "fst ?c"
        "fst (snd ?c)" "snd (snd ?c)" m] by simp
  qed
  show "issueModel (fst (snd ?c)) = issueModel t"
  proof (cases "createBranchConfig e t = Some ''off''")
    case True
    then show ?thesis by (simp add: createIssueBranch_off)
  next
    case False
    show ?thesis
      using createIssueBranch_cases(4) [OF False, of w "fst ?r" "snd ?r" "fst ?c"
        "fst (snd ?c)" "snd (snd ?c)"] by simp
  qed
  show "repoDefaults (fst (snd ?c)) = repoDefaults t"
  proof (cases "createBranchConfig e t = Some ''off''")
    case True
    then show ?thesis by (simp add: createIssueBranch_off)
  next
    case False
    show ?thesis
      using createIssueBranch_cases(6) [OF False, of w "fst ?r" "snd ?r" "fst ?c"
        "fst (snd ?c)" "snd (snd ?c)"] by simp
  qed
  show "ci_repo (fst (snd ?c)) = ci_repo t"
  proof (cases "createBranchConfig e t = Some ''off''")
    case True
    then show ?thesis by (simp add: createIssueBranch_off)
  next
    case False
    show ?thesis
      using createIssueBranch_cases(7) [OF False, of w "fst ?r" "snd ?r" "fst ?c"
        "fst (snd ?c)" "snd (snd ?c)"] by simp
  qed
qed

text \<open>The name createIssueBranch leaves in the persisted state is never blank.\<close>

lemma createIssueBranch_saved_name:
  assumes "createBranchConfig e t \<noteq> Some ''off''"
  shows "\<not> falsy (branch (getSavedIssueState (number (issueModel t))
                              (snd (snd (createIssueBranch e t w)))))"
proof -
  let ?c = "createIssueBranch e t w"
  let ?r = "resolveBranchName e t w"
  note cs = createIssueBranch_cases(1-3) [OF assms, of w "fst ?r" "snd ?r" "fst ?c"
      "fst (snd ?c)" "snd (snd ?c)"]
  obtain name where nm: "branchName (fst ?r) = Some name" and ne: "name \<noteq> []"
    using resolveBranchName_fields(2) [of e t w]
    by (cases "branchName (fst ?r)") simp_all
  show ?thesis
  proof (cases "attemptFails e name w")
    case False
    then show ?thesis using cs(1) ne by (simp add: nm)
  next
    case True
    then show ?thesis
      using cs(2,3) getBasicBranchName_nonempty [of t "fst (getUser e t)"]
      by (cases "name = getBasicBranchName t (fst (getUser e t))") (simp_all add: nm)
  qed
qed

lemma startWorking_flag:
  assumes "hasDraftPR (getSavedIssueState (number (issueModel t)) w)"
  shows "draftPushes (events (snd (snd (startWorking e t w)))) = draftPushes (events w)"
    and "hasDraftPR (getSavedIssueState (number (issueModel t)) (snd (snd (startWorking e t w))))"
proof -
  let ?f = "fetchDefaults e t w"
  let ?c = "createIssueBranch e (fst ?f) (snd ?f)"
  let ?s = "setStatusBar e (fst (snd ?c)) (setCommitMessageAndGitEvent e (fst (snd ?c)) (snd (snd ?c)))"
  note st = startWorking_steps [of e t w "fst ?f" "snd ?f" "fst ?c" "fst (snd ?c)" "snd (snd ?c)"]
  have d2: "draftPushes (events (snd (snd ?c))) = draftPushes (events w)"
    by (simp add: createIssueBranch_quiet fetchDefaults_fields)
  have h2: "hasDraftPR (getSavedIssueState (number (issueModel t)) (snd (snd ?c)))"
    using assms by (simp add: createIssueBranch_quiet fetchDefaults_fields)
  have h3: "hasDraftPR (getSavedIssueState (number (issueModel (fst ?s))) (snd ?s))"
    using h2
    by (simp add: setStatusBar_fields setCommitMessageAndGitEvent_fields
        createIssueBranch_quiet fetchDefaults_fields)
  have w': "snd (snd (startWorking e t w))
              = (if isl (fst ?c) then snd (snd ?c) else snd ?s)"
    using st createDraftPR_fields(3) [OF h3, of e] by (cases "isl (fst ?c)") simp_all
  show "draftPushes (events (snd (snd (startWorking e t w)))) = draftPushes (events w)"
    using d2
    by (simp add: w' setStatusBar_fields setCommitMessageAndGitEvent_fields draftPushes_append)
  show "hasDraftPR (getSavedIssueState (number (issueModel t)) (snd (snd (startWorking e t w))))"
    using h2 by (simp add: w' setStatusBar_fields setCommitMessageAndGitEvent_fields)
qed

lemma startWorking_repeat_flag:
  assumes "hasDraftPR (getSavedIssueState n w)"
    and "\<forall>c \<in> set calls. number (issueModel (snd c)) = n"
  shows "draftPushes (events (startWorking_repeat calls w)) = draftPushes (events w)
         \<and> hasDraftPR (getSavedIssueState n (startWorking_repeat calls w))"
  using assms
proof (induction calls arbitrary: w)
  case Nil
  then show ?case by simp
next
  case (Cons c calls)
  obtain e t where c: "c = (e, t)" by (cases c)
  have n: "number (issueModel t) = n" using Cons.prems(2) c by simp
  have "hasDraftPR (getSavedIssueState n (snd (snd (startWorking e t w))))"
    and "draftPushes (events (snd (snd (startWorking e t w)))) = draftPushes (events w)"
    using startWorking_flag [of t w e] Cons.prems(1) n by simp_all
  then show ?case
    using Cons.IH [of "snd (snd (startWorking e t w))"] Cons.prems(2) c by simp
qed

text \<open>
  Claim C2.  \<^verbatim>\<open>createDraftPR\<close> does nothing when the persisted flag of the issue is
  set.  When the flag is not set, the configuration asks for draft pull requests and the
  tracker has a branch name, it pushes once, and the flag is set afterwards exactly when
  the push succeeded.  So once the flag of an issue is set, any number of further
  \<^verbatim>\<open>startWorking\<close> calls for that issue push nothing and leave the flag set.
\<close>

theorem createDraftPR_at_most_once:
  "(hasDraftPR (getSavedIssueState (number (issueModel t)) w) \<longrightarrow> createDraftPR e t w = w)
   \<and> (\<not> hasDraftPR (getSavedIssueState (number (issueModel t)) w) \<and> alwaysCreateDraftPR e
        \<and> \<not> falsy (branchName t) \<longrightarrow>
      draftPushes (events (createDraftPR e t w)) = Suc (draftPushes (events w))
      \<and> hasDraftPR (getSavedIssueState (number (issueModel t)) (createDraftPR e t w))
          = pushAndCreatePR e)
   \<and> (hasDraftPR (getSavedIssueState n w0)
        \<and> (\<forall>c \<in> set calls. number (issueModel (snd c)) = n) \<longrightarrow>
      draftPushes (events (startWorking_repeat calls w0)) = draftPushes (events w0)
      \<and> hasDraftPR (getSavedIssueState n (startWorking_repeat calls w0)))"
proof (intro conjI impI)
  show "hasDraftPR (getSavedIssueState (number (issueModel t)) w) \<Longrightarrow> createDraftPR e t w = w"
    by (simp add: createDraftPR_def)
next
  assume a: "\<not> hasDraftPR (getSavedIssueState (number (issueModel t)) w) \<and> alwaysCreateDraftPR e
        \<and> \<not> falsy (branchName t)"
  then show "draftPushes (events (createDraftPR e t w)) = Suc (draftPushes (events w))"
    by (simp add: createDraftPR_def Let_def setSavedIssueState_fields emit_fields
        draftPushes_append)
  from a show "hasDraftPR (getSavedIssueState (number (issueModel t)) (createDraftPR e t w))
          = pushAndCreatePR e"
    by (simp add: createDraftPR_def Let_def setSavedIssueState_fields getSavedIssueState_emit)
next
  assume a: "hasDraftPR (getSavedIssueState n w0)
        \<and> (\<forall>c \<in> set calls. number (issueModel (snd c)) = n)"
  then show "draftPushes (events (startWorking_repeat calls w0)) = draftPushes (events w0)"
    using startWorking_repeat_flag [of n w0 calls] by simp
  from a show "hasDraftPR (getSavedIssueState n (startWorking_repeat calls w0))"
    using startWorking_repeat_flag [of n w0 calls] by simp
qed

lemma world1_events:
  "events world1 =
     [ShowInputBox ''issue7'' ''Enter the label for the new branch.'',
      SetSavedIssueState 7 \<lparr>branch = Some ''feature'', hasDraftPR = False\<rparr>,
      GetBranch ''feature'', CreateBranch ''feature'', StatusBarShow ''$(issues) Issue #7'',
      PushAndCreatePR True,
      SetSavedIssueState 7 \<lparr>branch = Some ''feature'', hasDraftPR = True\<rparr>]"
  "getSavedIssueState 7 world1 = \<lparr>branch = Some ''feature'', hasDraftPR = True\<rparr>"
  by (simp_all add: world1_def env_ok_def model_defs startWorking_defs example_defs defaults0_def)

theorem createDraftPR_at_most_once_witness:
  "hasDraftPR (getSavedIssueState 7 world1)
   \<and> draftPushes (events world1) = 1
   \<and> draftPushes (events (startWorking_repeat
        [(env_ok, tracker7), (env_ok, tracker7\<lparr>shouldPromptForBranch := True\<rparr>)] world1)) = 1
   \<and> createDraftPR env_ok (tracker7\<lparr>branchName := Some ''feature''\<rparr>) world1 = world1
   \<and> draftPushes (events (createDraftPR env_ok (tracker7\<lparr>branchName := Some ''feature''\<rparr>)
        world0)) = 1"
proof -
  let ?t = "tracker7\<lparr>branchName := Some ''feature''\<rparr>"
  let ?calls = "[(env_ok, tracker7), (env_ok, tracker7\<lparr>shouldPromptForBranch := True\<rparr>)]"
  have n: "number (issueModel tracker7) = 7"
    by (simp add: tracker7_def issue7_def)
  have f: "hasDraftPR (getSavedIssueState 7 world1)" and d: "draftPushes (events world1) = 1"
    by (simp_all add: world1_events)
  have f0: "\<not> hasDraftPR (getSavedIssueState 7 world0)" and d0: "draftPushes (events world0) = 0"
    by (simp_all add: world0_def getSavedIssueState_def)
  have cs: "\<forall>c \<in> set ?calls. number (issueModel (snd c)) = 7"
    by (simp add: n)
  have cfg: "alwaysCreateDraftPR env_ok"
    by (simp add: env_ok_def env_prompt_def)
  note once = createDraftPR_at_most_once [of ?t world1 env_ok 7 world1 ?calls]
  note first = createDraftPR_at_most_once [of ?t world0 env_ok 7 world1 ?calls]
  have a: "createDraftPR env_ok ?t world1 = world1"
    using once f by (simp add: n)
  have b: "draftPushes (events (startWorking_repeat ?calls world1)) = 1"
    using once f cs d by (simp add: n)
  have c: "draftPushes (events (createDraftPR env_ok ?t world0)) = 1"
    using first f0 d0 cfg by (simp add: n)
  show ?thesis
    using f d a b c by simp
qed

section \<open>Resolving the branch name\<close>

lemma startWorking_saved_name:
  assumes "createBranchConfig e t \<noteq> Some ''off''"
  shows "\<not> falsy (branch (getSavedIssueState (number (issueModel t))
                              (snd (snd (startWorking e t w)))))"
proof -
  let ?f = "fetchDefaults e t w"
  let ?c = "createIssueBranch e (fst ?f) (snd ?f)"
  let ?s = "setStatusBar e (fst (snd ?c)) (setCommitMessageAndGitEvent e (fst (snd ?c)) (snd (snd ?c)))"
  note st = startWorking_steps [of e t w "fst ?f" "snd ?f" "fst ?c" "fst (snd ?c)" "snd (snd ?c)"]
  have cfg: "createBranchConfig e (fst ?f) \<noteq> Some ''off''"
    using assms by (simp add: fetchDefaults_fields)
  have b: "\<not> falsy (branch (getSavedIssueState (number (issueModel t)) (snd (snd ?c))))"
    using createIssueBranch_saved_name [OF cfg, of "snd ?f"] by (simp add: fetchDefaults_fields)
  show ?thesis
    using st b
    by (cases "isl (fst ?c)")
      (simp_all add: createDraftPR_fields setStatusBar_fields setCommitMessageAndGitEvent_fields)
qed

text \<open>
  Claim C3 as stated fails in its last clause.  With the configuration \<^verbatim>\<open>'off'\<close> and
  a prompt requested, the user is asked and the name answered is saved and created.
  With \<^verbatim>\<open>'off'\<close>, no prompt requested and the name \<^verbatim>\<open>feature\<close> saved for the
  issue, nothing is resolved: the saved name is not reused.
\<close>

theorem createIssueBranch_off_counterexample:
  "branchConfiguration env_off = Some ''off''
   \<and> branchName (fst (snd (createIssueBranch env_off
        (tracker7\<lparr>shouldPromptForBranch := True\<rparr>) world0))) = Some ''feature''
   \<and> events (snd (snd (createIssueBranch env_off
        (tracker7\<lparr>shouldPromptForBranch := True\<rparr>) world0)))
       = [ShowInputBox ''issue7'' ''Enter the label for the new branch.'',
          SetSavedIssueState 7 \<lparr>branch = Some ''feature'', hasDraftPR = False\<rparr>,
          GetBranch ''feature'', CreateBranch ''feature'']
   \<and> branch (getSavedIssueState 7 world1) = Some ''feature''
   \<and> createIssueBranch env_off tracker7 world1 = (Inr (), tracker7, world1)
   \<and> branchName tracker7 = None"
proof -
  have a: "branchConfiguration env_off = Some ''off''"
    by (simp add: env_off_def env_ok_def env_prompt_def)
  have b: "branchName (fst (snd (createIssueBranch env_off
        (tracker7\<lparr>shouldPromptForBranch := True\<rparr>) world0))) = Some ''feature''"
    and c: "events (snd (snd (createIssueBranch env_off
        (tracker7\<lparr>shouldPromptForBranch := True\<rparr>) world0)))
       = [ShowInputBox ''issue7'' ''Enter the label for the new branch.'',
          SetSavedIssueState 7 \<lparr>branch = Some ''feature'', hasDraftPR = False\<rparr>,
          GetBranch ''feature'', CreateBranch ''feature'']"
    by (simp_all add: model_defs example_defs env_off_def env_ok_def)
  have d: "branch (getSavedIssueState 7 world1) = Some ''feature''"
    by (simp add: world1_events)
  have f: "createIssueBranch env_off tracker7 world1 = (Inr (), tracker7, world1)"
    by (simp add: createIssueBranch_def createBranchConfig_def env_off_def env_ok_def
        env_prompt_def tracker7_def)
  have g: "branchName tracker7 = None"
    by (simp add: tracker7_def)
  show ?thesis
    using a b c d f g by simp
qed

text \<open>
  Claim C3, amended.  The branch name \<^verbatim>\<open>createIssueBranch\<close> resolves, in this
  order.  When the prompt was requested the user is asked, whatever is saved and whatever
  the configuration, \<^verbatim>\<open>'off'\<close> included.  Otherwise, when the configuration is
  \<^verbatim>\<open>'off'\<close>, nothing is resolved and nothing else happens, saved name or not.
  Otherwise a saved name that is not blank is taken and nobody is asked.  Otherwise, when
  the configuration is \<^verbatim>\<open>'on'\<close>, the name is the result of the template
  substitution.  Otherwise the user is asked.  An answer left blank, and likewise a
  substitution result that is empty, is replaced by \<^verbatim>\<open><user>/issue<N>\<close>.  Whenever a
  name is resolved it is saved and checked out.  After a \<^verbatim>\<open>startWorking\<close> that
  resolved a branch, starting work on the same issue again without a prompt request
  takes the name then saved, without asking.
\<close>

theorem resolveBranchName_precedence:
  assumes "resolveBranchName e t w = (t1, w1)"
  shows "(shouldPromptForBranch t \<longrightarrow>
            w1 = emit (ShowInputBox (''issue'' @ toString (number (issueModel t)))
                         ''Enter the label for the new branch.'') w
            \<and> branchName t1
                = (if falsy (showInputBox e) then Some (getBasicBranchName t (fst (getUser e t)))
                   else showInputBox e))
       \<and> (\<not> shouldPromptForBranch t
            \<and> \<not> falsy (branch (getSavedIssueState (number (issueModel t)) w)) \<longrightarrow>
            w1 = w \<and> branchName t1 = branch (getSavedIssueState (number (issueModel t)) w))
       \<and> (\<not> shouldPromptForBranch t
            \<and> falsy (branch (getSavedIssueState (number (issueModel t)) w))
            \<and> branchConfiguration e = Some ''on'' \<longrightarrow>
            w1 = w
            \<and> branchName t1
                = Some (if variableSubstitution e (branchNameConfiguration e) (issueModel t) None
                             (Some (fst (getUser e t))) = []
                        then getBasicBranchName t (fst (getUser e t))
                        else variableSubstitution e (branchNameConfiguration e) (issueModel t)
                               None (Some (fst (getUser e t)))))
       \<and> (\<not> shouldPromptForBranch t
            \<and> falsy (branch (getSavedIssueState (number (issueModel t)) w))
            \<and> branchConfiguration e \<noteq> Some ''on'' \<longrightarrow>
            w1 = emit (ShowInputBox (''issue'' @ toString (number (issueModel t)))
                         ''Enter the label for the new branch.'') w
            \<and> branchName t1
                = (if falsy (showInputBox e) then Some (getBasicBranchName t (fst (getUser e t)))
                   else showInputBox e))
       \<and> (\<not> shouldPromptForBranch t \<and> branchConfiguration e = Some ''off'' \<longrightarrow>
            createIssueBranch e t w = (Inr (), t, w))
       \<and> (shouldPromptForBranch t \<or> branchConfiguration e \<noteq> Some ''off'' \<longrightarrow>
            createIssueBranch e t w = checkoutIssueBranch e t1 (saveBranch t1 w1))
       \<and> (\<not> shouldPromptForBranch t
            \<and> w = snd (snd (startWorking e0 t0 w0))
            \<and> createBranchConfig e0 t0 \<noteq> Some ''off''
            \<and> number (issueModel t0) = number (issueModel t) \<longrightarrow>
            w1 = w \<and> branchName t1 = branch (getSavedIssueState (number (issueModel t)) w)
            \<and> \<not> falsy (branchName t1))"
proof -
  have t1: "t1 = fst (resolveBranchName e t w)" and w1: "w1 = snd (resolveBranchName e t w)"
    using assms by simp_all
  have p1: "shouldPromptForBranch t \<Longrightarrow>
            w1 = emit (ShowInputBox (''issue'' @ toString (number (issueModel t)))
                         ''Enter the label for the new branch.'') w
            \<and> branchName t1
                = (if falsy (showInputBox e) then Some (getBasicBranchName t (fst (getUser e t)))
                   else showInputBox e)"
    unfolding t1 w1 using resolveBranchName_prompt [of t w e] by simp
  have p2: "\<not> shouldPromptForBranch t \<Longrightarrow>
            \<not> falsy (branch (getSavedIssueState (number (issueModel t)) w)) \<Longrightarrow>
            w1 = w \<and> branchName t1 = branch (getSavedIssueState (number (issueModel t)) w)"
    unfolding t1 w1 using resolveBranchName_saved [of t w e] by simp
  have p3: "\<not> shouldPromptForBranch t \<Longrightarrow>
            falsy (branch (getSavedIssueState (number (issueModel t)) w)) \<Longrightarrow>
            branchConfiguration e = Some ''on'' \<Longrightarrow>
            w1 = w
            \<and> branchName t1
                = Some (if variableSubstitution e (branchNameConfiguration e) (issueModel t) None
                             (Some (fst (getUser e t))) = []
                        then getBasicBranchName t (fst (getUser e t))
                        else variableSubstitution e (branchNameConfiguration e) (issueModel t)
                               None (Some (fst (getUser e t))))"
    unfolding t1 w1 using resolveBranchName_on [of t w e] by simp
  have p4: "\<not> shouldPromptForBranch t \<Longrightarrow>
            falsy (branch (getSavedIssueState (number (issueModel t)) w)) \<Longrightarrow>
            branchConfiguration e \<noteq> Some ''on'' \<Longrightarrow>
            w1 = emit (ShowInputBox (''issue'' @ toString (number (issueModel t)))
                         ''Enter the label for the new branch.'') w
            \<and> branchName t1
                = (if falsy (showInputBox e) then Some (getBasicBranchName t (fst (getUser e t)))
                   else showInputBox e)"
    unfolding t1 w1 using resolveBranchName_prompt [of t w e] by simp
  have p5: "\<not> shouldPromptForBranch t \<Longrightarrow> branchConfiguration e = Some ''off'' \<Longrightarrow>
            createIssueBranch e t w = (Inr (), t, w)"
    by (simp add: createIssueBranch_off createBranchConfig_def)
  have p6: "shouldPromptForBranch t \<or> branchConfiguration e \<noteq> Some ''off'' \<Longrightarrow>
            createIssueBranch e t w = checkoutIssueBranch e t1 (saveBranch t1 w1)"
    unfolding t1 w1 by (rule createIssueBranch_on) (auto simp: createBranchConfig_def)
  have p7: "\<not> shouldPromptForBranch t \<Longrightarrow> w = snd (snd (startWorking e0 t0 w0)) \<Longrightarrow>
            createBranchConfig e0 t0 \<noteq> Some ''off'' \<Longrightarrow>
            number (issueModel t0) = number (issueModel t) \<Longrightarrow>
            w1 = w \<and> branchName t1 = branch (getSavedIssueState (number (issueModel t)) w)
            \<and> \<not> falsy (branchName t1)"
    using startWorking_saved_name [of e0 t0 w0] p2 by auto
  show ?thesis
    using p1 p2 p3 p4 p5 p6 p7 by blast
qed

theorem resolveBranchName_precedence_witness:
  "world1 = snd (snd (startWorking env_ok tracker7 world0))
   \<and> resolveBranchName env_ok tracker7 world1
       = (tracker7\<lparr>branchName := Some ''feature''\<rparr>, world1)
   \<and> branchName (fst (resolveBranchName (env_ok\<lparr>branchConfiguration := Some ''on''\<rparr>)
        tracker7 world0)) = Some ''issue-branch''
   \<and> branchName (fst (resolveBranchName env_prompt
        (tracker7\<lparr>shouldPromptForBranch := True\<rparr>) world1)) = Some ''alice/issue7''"
proof -
  let ?r = "resolveBranchName env_ok tracker7 world1"
  let ?on = "env_ok\<lparr>branchConfiguration := Some ''on''\<rparr>"
  let ?r2 = "resolveBranchName ?on tracker7 world0"
  let ?p = "tracker7\<lparr>shouldPromptForBranch := True\<rparr>"
  let ?r3 = "resolveBranchName env_prompt ?p world1"
  have a: "\<not> shouldPromptForBranch tracker7" "createBranchConfig env_ok tracker7 \<noteq> Some ''off''"
    "number (issueModel tracker7) = 7"
    by (simp_all add: tracker7_def issue7_def createBranchConfig_def env_ok_def env_prompt_def)
  have w: "world1 = snd (snd (startWorking env_ok tracker7 world0))"
    by (simp add: world1_def)
  have s: "branch (getSavedIssueState 7 world1) = Some ''feature''"
    by (simp add: world1_events)
  have "fst ?r = tracker7\<lparr>branchName := Some ''feature''\<rparr> \<and> snd ?r = world1"
    using resolveBranchName_precedence [of env_ok tracker7 world1 "fst ?r" "snd ?r"
        env_ok tracker7 world0] a w s
    by (simp add: resolveBranchName_saved)
  then have one: "?r = (tracker7\<lparr>branchName := Some ''feature''\<rparr>, world1)"
    by (simp add: prod_eq_iff)
  have two: "branchName (fst ?r2) = Some ''issue-branch''"
    using resolveBranchName_precedence [of ?on tracker7 world0 "fst ?r2" "snd ?r2"
        env_ok tracker7 world0] a
    by (simp add: env_ok_def env_prompt_def world0_def getSavedIssueState_def)
  have three: "branchName (fst ?r3) = Some ''alice/issue7''"
    using resolveBranchName_precedence [of env_prompt ?p world1 "fst ?r3" "snd ?r3"
        env_ok tracker7 world0]
    by (simp add: env_prompt_def tracker7_def issue7_def getUser_def getBasicBranchName_def
        toString.simps digit_def)
  show ?thesis
    using w one two three by simp
qed

section \<open>Starting work without pull-request defaults\<close>

lemma choice_texts_differ:
  "applyPatch e t \<noteq> openIssueText t'" "applyPatch e t \<noteq> pullRequestText t'"
  "applyPatch e t \<noteq> draftPullRequestText t'" "applyPatch e t \<noteq> stopWorkingText t'"
  by (simp_all add: applyPatch_def openIssueText_def pullRequestText_def
      draftPullRequestText_def stopWorkingText_def)

text \<open>
  Claim C5.  When \<^verbatim>\<open>getPullRequestDefaults\<close> rejects, \<^verbatim>\<open>startWorking\<close> shows its
  message and goes on to \<^verbatim>\<open>createIssueBranch\<close>: it rejects only if that step does,
  and the defaults of the tracker stay as they were.  When the branch step returns, the
  commit-message box is filled from the template and the status-bar item is shown, both
  computed with those defaults.  The menu of the status bar then has four choices,
  without the apply-patch one; in general that choice is offered exactly when the tracker
  has a branch name and the defaults can be fetched.
\<close>

theorem startWorking_without_defaults:
  assumes "getPullRequestDefaults e = None"
    and "createIssueBranch e t
           (emit (ShowErrorMessage ''There is no remote. Can't start working on an issue.'') w)
         = (r2, t2, w2)"
    and "startWorking e t w = (r, t', w')"
  shows "r = r2 \<and> repoDefaults t' = repoDefaults t \<and> branchName t' = branchName t2
       \<and> (r2 = Inr () \<longrightarrow>
            statusBarItem t'
              = Some \<lparr>sb_text = ''$(issues) Issue ''
                          @ getIssueNumberLabel e (issueModel t) (repoDefaults t),
                      sb_tooltip = title (issueModel t), sb_command = ''issue.statusBar''\<rparr>
            \<and> StatusBarShow (''$(issues) Issue ''
                   @ getIssueNumberLabel e (issueModel t) (repoDefaults t)) \<in> set (events w')
            \<and> (ci_repo t = Some i \<and> workingIssueFormatScm e = Some c \<longrightarrow>
                 inputBox w' i = variableSubstitution e c (issueModel t) (repoDefaults t) None))
       \<and> choices e t'
           = [openIssueText t', pullRequestText t', draftPullRequestText t', stopWorkingText t']
       \<and> (applyPatch e1 t3 \<in> set (choices e1 t3)
            \<longleftrightarrow> \<not> falsy (branchName t3) \<and> getPullRequestDefaults e1 \<noteq> None)"
proof -
  have f: "fetchDefaults e t w
             = (t, emit (ShowErrorMessage
                  ''There is no remote. Can't start working on an issue.'') w)"
    using assms(1) by (simp add: fetchDefaults_def)
  note st = startWorking_steps [OF f assms(2)]
  let ?s = "setStatusBar e t2 (setCommitMessageAndGitEvent e t2 w2)"
  have t2: "issueModel t2 = issueModel t" "repoDefaults t2 = repoDefaults t" "ci_repo t2 = ci_repo t"
    using createIssueBranch_quiet(3-5) [of e t
        "emit (ShowErrorMessage ''There is no remote. Can't start working on an issue.'') w"]
      assms(2) by simp_all
  have p1: "r = r2 \<and> repoDefaults t' = repoDefaults t \<and> branchName t' = branchName t2"
  proof (cases "isl r2")
    case True
    then show ?thesis using st(1) assms(3) t2 by simp
  next
    case False
    then show ?thesis
      using st(2) assms(3) t2 Inr_unit [of r2] by (simp add: setStatusBar_fields)
  qed
  have p2: "statusBarItem t'
              = Some \<lparr>sb_text = ''$(issues) Issue ''
                          @ getIssueNumberLabel e (issueModel t) (repoDefaults t),
                      sb_tooltip = title (issueModel t), sb_command = ''issue.statusBar''\<rparr>
            \<and> StatusBarShow (''$(issues) Issue ''
                   @ getIssueNumberLabel e (issueModel t) (repoDefaults t)) \<in> set (events w')
            \<and> (ci_repo t = Some i \<and> workingIssueFormatScm e = Some c \<longrightarrow>
                 inputBox w' i = variableSubstitution e c (issueModel t) (repoDefaults t) None)"
    if ok: "r2 = Inr ()"
  proof -
    have t': "t' = fst ?s" and w': "w' = createDraftPR e (fst ?s) (snd ?s)"
      using st(2) assms(3) ok by simp_all
    have "StatusBarShow (''$(issues) Issue ''
             @ getIssueNumberLabel e (issueModel t) (repoDefaults t)) \<in> set (events (snd ?s))"
      by (simp add: setStatusBar_fields t2)
    then have sh: "StatusBarShow (''$(issues) Issue ''
             @ getIssueNumberLabel e (issueModel t) (repoDefaults t)) \<in> set (events w')"
      unfolding w' using createDraftPR_fields(5) [of "snd ?s" e "fst ?s"] by blast
    show ?thesis
      using sh
      by (simp add: t' w' setStatusBar_fields createDraftPR_fields
          setCommitMessageAndGitEvent_fields t2)
  qed
  have p3: "choices e t'
           = [openIssueText t', pullRequestText t', draftPullRequestText t', stopWorkingText t']"
    using assms(1) by (simp add: choices_def)
  have p4: "applyPatch e1 t3 \<in> set (choices e1 t3)
            \<longleftrightarrow> \<not> falsy (branchName t3) \<and> getPullRequestDefaults e1 \<noteq> None"
    using choice_texts_differ [of e1 t3 t3] by (simp add: choices_def)
  show ?thesis
    using p1 p2 p3 p4 by blast
qed

theorem startWorking_without_defaults_witness:
  "getPullRequestDefaults env_retry = None
   \<and> fst (startWorking env_retry tracker7 world0) = Inr ()
   \<and> repoDefaults (fst (snd (startWorking env_retry tracker7 world0))) = None
   \<and> branchName (fst (snd (startWorking env_retry tracker7 world0))) = Some ''alice/issue7''
   \<and> StatusBarShow ''$(issues) Issue #7''
        \<in> set (events (snd (snd (startWorking env_retry tracker7 world0))))
   \<and> inputBox (snd (snd (startWorking env_retry tracker7 world0))) 0 = ''msg''
   \<and> length (choices env_retry (fst (snd (startWorking env_retry tracker7 world0)))) = 4"
  using startWorking_without_defaults [of env_retry tracker7 world0
      "fst (createIssueBranch env_retry tracker7
         (emit (ShowErrorMessage ''There is no remote. Can't start working on an issue.'') world0))"
      "fst (snd (createIssueBranch env_retry tracker7
         (emit (ShowErrorMessage ''There is no remote. Can't start working on an issue.'') world0)))"
      "snd (snd (createIssueBranch env_retry tracker7
         (emit (ShowErrorMessage ''There is no remote. Can't start working on an issue.'') world0)))"
      "fst (startWorking env_retry tracker7 world0)"
      "fst (snd (startWorking env_retry tracker7 world0))"
      "snd (snd (startWorking env_retry tracker7 world0))" 0 "''msg''" env_retry tracker7]
  by (simp add: model_defs startWorking_defs example_defs env_retry_def)

end
